theory Spec2Isabelle
  imports Complex_Main
begin

section \<open>The assessment controller of lms-backend\<close>

text \<open>
  This theory embeds the request handlers \<open>getAssessmentById\<close>, \<open>updateAssessment\<close>,
  \<open>submitAssessment\<close> and \<open>gradeSubmission\<close> of the assessment controller
  (\<^verbatim>\<open>src/unnamed/part_001\<close>) and proves properties of the submission and grading
  life cycle.

  Conventions of the embedding:
  \<^item> An \<open>ObjectId\<close> is a string; the handlers compare ids through \<open>toString()\<close>.
  \<^item> A \<open>Date\<close> is its value in milliseconds since the epoch, an \<open>int\<close>; the handlers
    compare and subtract dates through that value.
  \<^item> A JavaScript number is a binary64 value, modelled as the real it denotes. Each
    arithmetic operation of the source is the exact operation followed by the rounding
    \<open>rnd\<close>, a parameter of the model. The program is the instance \<open>round_binary64\<close>
    (round to nearest, ties to even); general statements are made for every \<open>rnd\<close> that
    is a \<open>rounding\<close>, which \<open>round_binary64\<close> is. Overflow to \<open>Infinity\<close> is not
    represented: statements about arithmetic are made for a late penalty of at most 100,
    the range of the data model, where no operation of the handler overflows.
  \<^item> \<open>res.status(n); throw new Error(m)\<close> is the value \<open>Inl (Error n m)\<close>, and a Joi
    failure (status 400 with the message of \<open>error.details[0]\<close>) is
    \<open>Inl (ValidationError d)\<close>, where \<open>d\<close> holds the path and the error code of that
    detail.
  \<^item> The collection behind \<open>Assessment.findById\<close> is a map from ids to documents. Each
    handler takes the collection and returns its outcome with the collection as the
    handler leaves it; a handler runs as one step (the interleaving of two requests
    between \<open>findById\<close> and \<open>save\<close> is not modelled).
  \<^item> \<open>populate\<close> only replaces an id by the document it names; the model keeps the id
    and takes the named users to exist.
  \<^item> Request bodies are typed: a field is absent (\<open>None\<close>) or holds a value of the
    type its Joi schema or Mongoose path expects. Keys outside the schema and values of
    another JSON type are not represented.
\<close>

subsection \<open>Data model\<close>

type_synonym objectId = string
type_synonym date = int

text \<open>\<open>req.user\<close>, as the authentication middleware provides it.\<close>

record user =
  user_id :: objectId
  isInstructor :: bool
  isAdmin :: bool

datatype assessment_type = Assignment | Project | Essay | Coding
datatype submission_type = File | Text | Url | Github
datatype status = Submitted | Graded

text \<open>The \<open>content\<close> object of a submit request: every key is optional.\<close>

record submission_content =
  content_text :: "string option"
  fileUrl :: "string option"
  fileName :: "string option"
  githubUrl :: "string option"
  websiteUrl :: "string option"

record grade =
  points :: real
  feedback :: "string option"
  gradedAt :: date
  gradedBy :: objectId

text \<open>
  Modelled from the spec: the Mongoose schema \<^verbatim>\<open>models/assessmentModel\<close> is not among
  the sources. The embedded submission document has the fields of the spec's data model:
  its own id, the student, the content, \<open>isLate\<close>, \<open>submittedAt\<close>, a status whose
  initial value is \<open>submitted\<close>, and a grade that is present once graded.
\<close>

record submission =
  sub_id :: objectId
  student :: objectId
  content :: submission_content
  isLate :: bool
  submittedAt :: date
  status :: status
  grade :: "grade option"

record rubric_item =
  criteria :: string
  rubric_maxPoints :: real
  rubric_description :: "string option"

text \<open>
  Modelled from the spec: the Mongoose schema \<^verbatim>\<open>models/assessmentModel\<close> is not among
  the sources. The assessment document has the fields of the spec's data model.
\<close>

record assessment =
  title :: string
  description :: string
  instructions :: string
  course :: objectId
  instructor :: objectId
  atype :: assessment_type
  maxPoints :: real
  dueDate :: date
  allowLateSubmission :: bool
  latePenalty :: real
  submissionType :: submission_type
  allowedFileTypes :: "string list"
  maxFileSize :: "real option"
  rubric :: "rubric_item list"
  isPublished :: bool
  submissions :: "submission list"

type_synonym db = "objectId \<rightharpoonup> assessment"

text \<open>
  Modelled from the spec: the Mongoose schema \<^verbatim>\<open>models/assessmentModel\<close> is not among
  the sources. The spec's data model declares \<open>course\<close> and \<open>instructor\<close> immutable after
  creation: these are the schema's immutable paths, which Mongoose leaves out of an
  update.
\<close>

definition immutable_paths :: "string list" where
  "immutable_paths = [''course'', ''instructor'']"

subsection \<open>Numbers\<close>

text \<open>
  The finite binary64 values: an integer significand below \<open>2^53\<close> in magnitude, scaled
  by a power of two between \<open>2^-1074\<close> and \<open>2^971\<close>.
\<close>

definition binary64 :: "real \<Rightarrow> bool" where
  "binary64 x \<longleftrightarrow>
     (\<exists>(m::int) (k::nat). \<bar>m\<bar> < 9007199254740992
        \<and> ((k \<le> 971 \<and> x = of_int m * 2 ^ k) \<or> (k \<le> 1074 \<and> x = of_int m / 2 ^ k)))"

text \<open>
  What the general statements assume of the rounding of an operation's exact result: it
  is monotone and leaves binary64 values as they are.
\<close>

definition rounding :: "(real \<Rightarrow> real) \<Rightarrow> bool" where
  "rounding rnd \<longleftrightarrow> (\<forall>x y. x \<le> y \<longrightarrow> rnd x \<le> rnd y) \<and> (\<forall>x. binary64 x \<longrightarrow> rnd x = x)"

text \<open>
  The rounding of JavaScript's arithmetic: IEEE 754 round to nearest, ties to even, onto
  binary64. \<open>round_even\<close> rounds a real to the nearest integer, a tie to the even one.
\<close>

definition round_even :: "real \<Rightarrow> int" where
  "round_even y =
     (let f = \<lfloor>y\<rfloor>
      in if y - real_of_int f < 1 / 2 then f
         else if 1 / 2 < y - real_of_int f then f + 1
         else if even f then f else f + 1)"

text \<open>
  The exponent of the unit in the last place of \<open>x\<close>: the largest \<open>e\<close> from \<open>- 1074\<close> to
  \<open>971\<close> with \<open>2 ^ (e + 52) \<le> \<bar>x\<bar>\<close>, and \<open>- 1074\<close> (the subnormal range) when there is
  none. The search runs from \<open>971\<close> downwards.
\<close>

primrec ulp_search :: "nat \<Rightarrow> real \<Rightarrow> int" where
  "ulp_search 0 x = - 1074"
| "ulp_search (Suc n) x =
     (if 2 powi (int n - 1021) \<le> \<bar>x\<bar> then int n - 1073 else ulp_search n x)"

definition ulp_exp :: "real \<Rightarrow> int" where
  "ulp_exp x = ulp_search 2045 x"

text \<open>
  A result beyond the largest finite binary64 value is not mapped to \<open>Infinity\<close>: the
  function agrees with the IEEE rounding where that does not overflow.
\<close>

definition round_binary64 :: "real \<Rightarrow> real" where
  "round_binary64 x = real_of_int (round_even (x / 2 powi ulp_exp x)) * 2 powi ulp_exp x"

subsection \<open>Errors\<close>

record joi_detail =
  path :: "string list"
  code :: string

datatype error =
  Error nat string
  | ValidationError joi_detail

subsection \<open>Joi schemas\<close>

text \<open>
  \<open>Joi.string()\<close> on an optional key: an absent key passes, the empty string is refused
  (\<open>string.empty\<close>).
\<close>

definition joi_string :: "string list \<Rightarrow> string option \<Rightarrow> joi_detail option" where
  "joi_string p v =
     (case v of
        None \<Rightarrow> None
      | Some s \<Rightarrow> if s = [] then Some \<lparr>path = p, code = ''string.empty''\<rparr> else None)"

text \<open>
  \<open>Joi.string().uri()\<close>: as \<open>Joi.string()\<close>, then the value must match Joi's
  RFC 3986 pattern, which is library code and is the parameter \<open>uri\<close> here.
\<close>

definition joi_string_uri ::
    "(string \<Rightarrow> bool) \<Rightarrow> string list \<Rightarrow> string option \<Rightarrow> joi_detail option" where
  "joi_string_uri uri p v =
     (case v of
        None \<Rightarrow> None
      | Some s \<Rightarrow>
          if s = [] then Some \<lparr>path = p, code = ''string.empty''\<rparr>
          else if \<not> uri s then Some \<lparr>path = p, code = ''string.uri''\<rparr>
          else None)"

text \<open>
  \<open>Number.MAX_SAFE_INTEGER\<close>: by default \<open>Joi.number()\<close> refuses a number outside the
  safe range (\<open>number.unsafe\<close>) before it applies \<open>min\<close>.
\<close>

definition MAX_SAFE_INTEGER :: real where
  "MAX_SAFE_INTEGER = 9007199254740991"

text \<open>\<open>Joi.number().min(0).required()\<close>.\<close>

definition joi_number_min0_required :: "string list \<Rightarrow> real option \<Rightarrow> joi_detail option" where
  "joi_number_min0_required p v =
     (case v of
        None \<Rightarrow> Some \<lparr>path = p, code = ''any.required''\<rparr>
      | Some n \<Rightarrow>
          if n > MAX_SAFE_INTEGER \<or> n < - MAX_SAFE_INTEGER
          then Some \<lparr>path = p, code = ''number.unsafe''\<rparr>
          else if n < 0 then Some \<lparr>path = p, code = ''number.min''\<rparr>
          else None)"

text \<open>Joi stops at the first error (\<open>abortEarly\<close>); keys are checked in schema order.\<close>

fun first_error :: "joi_detail option list \<Rightarrow> joi_detail option" where
  "first_error [] = None"
| "first_error (None # es) = first_error es"
| "first_error (Some e # es) = Some e"

record submit_body =
  req_content :: "submission_content option"

text \<open>The schema of \<open>submitAssessment\<close> (lines 204--212).\<close>

definition validate_submit :: "(string \<Rightarrow> bool) \<Rightarrow> submit_body \<Rightarrow> joi_detail option" where
  "validate_submit uri b =
     (case req_content b of
        None \<Rightarrow> Some \<lparr>path = [''content''], code = ''any.required''\<rparr>
      | Some c \<Rightarrow>
          first_error
            [joi_string [''content'', ''text''] (content_text c),
             joi_string [''content'', ''fileUrl''] (fileUrl c),
             joi_string [''content'', ''fileName''] (fileName c),
             joi_string_uri uri [''content'', ''githubUrl''] (githubUrl c),
             joi_string_uri uri [''content'', ''websiteUrl''] (websiteUrl c)])"

record grade_body =
  req_points :: "real option"
  req_feedback :: "string option"

text \<open>The schema of \<open>gradeSubmission\<close> (lines 270--273).\<close>

definition validate_grade :: "grade_body \<Rightarrow> joi_detail option" where
  "validate_grade b =
     first_error
       [joi_number_min0_required [''points''] (req_points b),
        joi_string [''feedback''] (req_feedback b)]"

subsection \<open>getAssessmentById\<close>

definition getAssessmentById :: "db \<Rightarrow> user \<Rightarrow> objectId \<Rightarrow> error + assessment" where
  "getAssessmentById d u aid =
     (case d aid of
        None \<Rightarrow> Inl (Error 404 ''Assessment not found'')
      | Some a \<Rightarrow>
          let isInstructor = (instructor a = user_id u);
              isAdmin = isAdmin u
          in if \<not> isInstructor \<and> \<not> isAdmin \<and> \<not> isPublished a
             then Inl (Error 403 ''Assessment not published'')
             else if \<not> isInstructor \<and> \<not> isAdmin
             then Inr (a\<lparr>submissions :=
                          filter (\<lambda>s. student s = user_id u) (submissions a)\<rparr>)
             else Inr a)"

subsection \<open>updateAssessment\<close>

text \<open>
  The body of an update request: any subset of the document's paths. It is handed to
  \<open>findByIdAndUpdate\<close> as it is, which sets every path the body names, the paths the
  schema declares immutable (\<open>imm\<close>) apart.
\<close>

record update_body =
  upd_title :: "string option"
  upd_description :: "string option"
  upd_instructions :: "string option"
  upd_course :: "objectId option"
  upd_instructor :: "objectId option"
  upd_type :: "assessment_type option"
  upd_maxPoints :: "real option"
  upd_dueDate :: "date option"
  upd_allowLateSubmission :: "bool option"
  upd_latePenalty :: "real option"
  upd_submissionType :: "submission_type option"
  upd_allowedFileTypes :: "string list option"
  upd_maxFileSize :: "real option option"
  upd_rubric :: "rubric_item list option"
  upd_isPublished :: "bool option"
  upd_submissions :: "submission list option"

fun set_path :: "'a option \<Rightarrow> 'a \<Rightarrow> 'a" where
  "set_path None old = old"
| "set_path (Some v) old = v"

definition set_mutable :: "string list \<Rightarrow> string \<Rightarrow> 'a option \<Rightarrow> 'a \<Rightarrow> 'a" where
  "set_mutable imm name v old = (if name \<in> set imm then old else set_path v old)"

definition findByIdAndUpdate :: "string list \<Rightarrow> assessment \<Rightarrow> update_body \<Rightarrow> assessment" where
  "findByIdAndUpdate imm a b =
     \<lparr>title = set_mutable imm ''title'' (upd_title b) (title a),
      description = set_mutable imm ''description'' (upd_description b) (description a),
      instructions = set_mutable imm ''instructions'' (upd_instructions b) (instructions a),
      course = set_mutable imm ''course'' (upd_course b) (course a),
      instructor = set_mutable imm ''instructor'' (upd_instructor b) (instructor a),
      atype = set_mutable imm ''type'' (upd_type b) (atype a),
      maxPoints = set_mutable imm ''maxPoints'' (upd_maxPoints b) (maxPoints a),
      dueDate = set_mutable imm ''dueDate'' (upd_dueDate b) (dueDate a),
      allowLateSubmission =
        set_mutable imm ''allowLateSubmission'' (upd_allowLateSubmission b)
          (allowLateSubmission a),
      latePenalty = set_mutable imm ''latePenalty'' (upd_latePenalty b) (latePenalty a),
      submissionType =
        set_mutable imm ''submissionType'' (upd_submissionType b) (submissionType a),
      allowedFileTypes =
        set_mutable imm ''allowedFileTypes'' (upd_allowedFileTypes b) (allowedFileTypes a),
      maxFileSize = set_mutable imm ''maxFileSize'' (upd_maxFileSize b) (maxFileSize a),
      rubric = set_mutable imm ''rubric'' (upd_rubric b) (rubric a),
      isPublished = set_mutable imm ''isPublished'' (upd_isPublished b) (isPublished a),
      submissions = set_mutable imm ''submissions'' (upd_submissions b) (submissions a)\<rparr>"

definition updateAssessment ::
    "string list \<Rightarrow> db \<Rightarrow> user \<Rightarrow> objectId \<Rightarrow> update_body
       \<Rightarrow> (error + assessment) \<times> db" where
  "updateAssessment imm d u aid b =
     (case d aid of
        None \<Rightarrow> (Inl (Error 404 ''Assessment not found''), d)
      | Some a \<Rightarrow>
          if instructor a \<noteq> user_id u \<and> \<not> isAdmin u
          then (Inl (Error 403 ''Not authorized to update this assessment''), d)
          else let updatedAssessment = findByIdAndUpdate imm a b
               in (Inr updatedAssessment, d(aid \<mapsto> updatedAssessment)))"

subsection \<open>submitAssessment\<close>

text \<open>
  The object the handler builds (lines 251--256) and returns in its response.
\<close>

record new_submission =
  ns_student :: objectId
  ns_content :: submission_content
  ns_isLate :: bool
  ns_submittedAt :: date

text \<open>
  \<open>assessment.submissions.push(submission)\<close>: Mongoose casts the object to an embedded
  document, gives it a fresh id (the parameter \<open>oid\<close>) and the default status.
\<close>

definition push_submission :: "objectId \<Rightarrow> new_submission \<Rightarrow> submission list \<Rightarrow> submission list" where
  "push_submission oid n ss =
     ss @ [\<lparr>sub_id = oid, student = ns_student n, content = ns_content n,
            isLate = ns_isLate n, submittedAt = ns_submittedAt n,
            status = Submitted, grade = None\<rparr>]"

text \<open>
  \<open>now\<close> is the value of \<open>new Date()\<close> at line 243. The handler is reached with a body
  that has a \<open>content\<close> object only, so \<open>req.body.content\<close> at line 253 is defined.
\<close>

definition submitAssessment ::
    "(string \<Rightarrow> bool) \<Rightarrow> db \<Rightarrow> user \<Rightarrow> objectId \<Rightarrow> submit_body \<Rightarrow> date \<Rightarrow> objectId
       \<Rightarrow> (error + new_submission) \<times> db" where
  "submitAssessment uri d u aid b now oid =
     (case validate_submit uri b of
        Some e \<Rightarrow> (Inl (ValidationError e), d)
      | None \<Rightarrow>
         (case d aid of
            None \<Rightarrow> (Inl (Error 404 ''Assessment not found''), d)
          | Some a \<Rightarrow>
              if \<not> isPublished a
              then (Inl (Error 400 ''Assessment is not published''), d)
              else
                (case find (\<lambda>s. student s = user_id u) (submissions a) of
                   Some existingSubmission \<Rightarrow>
                     (Inl (Error 400 ''Assessment already submitted''), d)
                 | None \<Rightarrow>
                     let isLate = (now > dueDate a)
                     in if isLate \<and> \<not> allowLateSubmission a
                        then (Inl (Error 400 ''Submission deadline has passed''), d)
                        else
                          (case req_content b of
                             None \<Rightarrow> (Inl (ValidationError
                                        \<lparr>path = [''content''], code = ''any.required''\<rparr>), d)
                           | Some c \<Rightarrow>
                               let submission =
                                     \<lparr>ns_student = user_id u, ns_content = c,
                                      ns_isLate = isLate, ns_submittedAt = now\<rparr>
                               in (Inr submission,
                                   d(aid \<mapsto> a\<lparr>submissions :=
                                       push_submission oid submission (submissions a)\<rparr>))))))"

subsection \<open>gradeSubmission\<close>

text \<open>
  Lines 302--307: the late penalty. Every subtraction, division and multiplication of the
  source is rounded; \<open>Math.ceil\<close> and \<open>Math.max\<close> are exact.
\<close>

definition daysLate :: "(real \<Rightarrow> real) \<Rightarrow> date \<Rightarrow> date \<Rightarrow> int" where
  "daysLate rnd submitted due =
     \<lceil>rnd (rnd (real_of_int submitted - real_of_int due) / (1000 * 60 * 60 * 24))\<rceil>"

definition penalty :: "(real \<Rightarrow> real) \<Rightarrow> real \<Rightarrow> int \<Rightarrow> real" where
  "penalty rnd late_penalty days = rnd (rnd (late_penalty / 100) * real_of_int days)"

definition finalPoints :: "(real \<Rightarrow> real) \<Rightarrow> assessment \<Rightarrow> submission \<Rightarrow> real \<Rightarrow> real" where
  "finalPoints rnd a s pts =
     (if isLate s \<and> latePenalty a > 0
      then max 0 (rnd (pts * rnd (1 - penalty rnd (latePenalty a)
                                     (daysLate rnd (submittedAt s) (dueDate a)))))
      else pts)"

text \<open>
  \<open>assessment.submissions.id(submissionId)\<close> is the first embedded document with that
  id; the handler then assigns to that document in place.
\<close>

fun update_first :: "('a \<Rightarrow> bool) \<Rightarrow> ('a \<Rightarrow> 'a) \<Rightarrow> 'a list \<Rightarrow> 'a list" where
  "update_first P f [] = []"
| "update_first P f (x # xs) = (if P x then f x # xs else x # update_first P f xs)"

text \<open>\<open>now\<close> is the value of \<open>new Date()\<close> at line 312.\<close>

definition gradeSubmission ::
    "(real \<Rightarrow> real) \<Rightarrow> db \<Rightarrow> user \<Rightarrow> objectId \<Rightarrow> objectId \<Rightarrow> grade_body \<Rightarrow> date
       \<Rightarrow> (error + submission) \<times> db" where
  "gradeSubmission rnd d u aid sid b now =
     (case validate_grade b of
        Some e \<Rightarrow> (Inl (ValidationError e), d)
      | None \<Rightarrow>
         (case d aid of
            None \<Rightarrow> (Inl (Error 404 ''Assessment not found''), d)
          | Some a \<Rightarrow>
              if instructor a \<noteq> user_id u \<and> \<not> isAdmin u
              then (Inl (Error 403 ''Not authorized to grade this assessment''), d)
              else
                (case find (\<lambda>s. sub_id s = sid) (submissions a) of
                   None \<Rightarrow> (Inl (Error 404 ''Submission not found''), d)
                 | Some submission \<Rightarrow>
                     (case req_points b of
                        None \<Rightarrow> (Inl (ValidationError
                                   \<lparr>path = [''points''], code = ''any.required''\<rparr>), d)
                      | Some pts \<Rightarrow>
                          let graded = (\<lambda>s. s\<lparr>grade := Some
                                            \<lparr>points = finalPoints rnd a s pts,
                                             feedback = req_feedback b,
                                             gradedAt = now,
                                             gradedBy = user_id u\<rparr>,
                                          status := Graded\<rparr>)
                          in (Inr (graded submission),
                              d(aid \<mapsto> a\<lparr>submissions :=
                                  update_first (\<lambda>s. sub_id s = sid) graded
                                    (submissions a)\<rparr>))))))"

subsection \<open>Example data\<close>

text \<open>
  The scenario of the specification: an assessment worth 100 points, due on 2024-01-10
  (00:00 UTC, that is 1704844800000 ms), late submissions allowed, 20 percent per late day.
  The owner is \<open>u1\<close>; \<open>u2\<close> is another instructor, \<open>s1\<close> and \<open>s2\<close> are students.
\<close>

definition example_assessment :: assessment where
  "example_assessment =
     \<lparr>title = ''Essay'', description = ''An essay'', instructions = ''Write it'',
      course = ''c1'', instructor = ''u1'', atype = Essay, maxPoints = 100,
      dueDate = 1704844800000, allowLateSubmission = True, latePenalty = 20,
      submissionType = Text, allowedFileTypes = [], maxFileSize = None, rubric = [],
      isPublished = True, submissions = []\<rparr>"

definition owner1 :: user where
  "owner1 = \<lparr>user_id = ''u1'', isInstructor = True, isAdmin = False\<rparr>"

definition instructor2 :: user where
  "instructor2 = \<lparr>user_id = ''u2'', isInstructor = True, isAdmin = False\<rparr>"

definition student1 :: user where
  "student1 = \<lparr>user_id = ''s1'', isInstructor = False, isAdmin = False\<rparr>"

definition student2 :: user where
  "student2 = \<lparr>user_id = ''s2'', isInstructor = False, isAdmin = False\<rparr>"

definition example_content :: submission_content where
  "example_content =
     \<lparr>content_text = Some ''my essay'', fileUrl = None, fileName = None,
      githubUrl = None, websiteUrl = None\<rparr>"

definition empty_content :: submission_content where
  "empty_content =
     \<lparr>content_text = None, fileUrl = None, fileName = None,
      githubUrl = None, websiteUrl = None\<rparr>"

text \<open>A submission of \<open>s1\<close> made at \<open>t\<close>, as \<open>submitAssessment\<close> stores it.\<close>

definition submission_at :: "date \<Rightarrow> submission" where
  "submission_at t =
     \<lparr>sub_id = ''n1'', student = ''s1'', content = example_content,
      isLate = (t > 1704844800000), submittedAt = t, status = Submitted, grade = None\<rparr>"

definition empty_update :: update_body where
  "empty_update =
     \<lparr>upd_title = None, upd_description = None, upd_instructions = None,
      upd_course = None, upd_instructor = None, upd_type = None, upd_maxPoints = None,
      upd_dueDate = None, upd_allowLateSubmission = None, upd_latePenalty = None,
      upd_submissionType = None, upd_allowedFileTypes = None, upd_maxFileSize = None,
      upd_rubric = None, upd_isPublished = None, upd_submissions = None\<rparr>"

definition with_submission :: "date \<Rightarrow> assessment" where
  "with_submission t = example_assessment\<lparr>submissions := [submission_at t]\<rparr>"

definition db_of :: "assessment \<Rightarrow> db" where
  "db_of a = [''a1'' \<mapsto> a]"

subsection \<open>Observations used in the statements\<close>

text \<open>
  The specification's words for the submit validation: each field of the content object
  that is present is usable, that is a non-empty string, and a well-formed URI for
  \<open>githubUrl\<close> and \<open>websiteUrl\<close>.
\<close>

definition usable :: "string option \<Rightarrow> bool" where
  "usable v = (v \<noteq> Some [])"

definition usable_uri :: "(string \<Rightarrow> bool) \<Rightarrow> string option \<Rightarrow> bool" where
  "usable_uri uri v = (case v of None \<Rightarrow> True | Some s \<Rightarrow> s \<noteq> [] \<and> uri s)"

definition structurally_valid :: "(string \<Rightarrow> bool) \<Rightarrow> submission_content \<Rightarrow> bool" where
  "structurally_valid uri c =
     (usable (content_text c) \<and> usable (fileUrl c) \<and> usable (fileName c)
      \<and> usable_uri uri (githubUrl c) \<and> usable_uri uri (websiteUrl c))"

text \<open>
  The points of the grade stored for submission \<open>sid\<close> of assessment \<open>aid\<close>, if there
  is such a grade.
\<close>

definition stored_points :: "db \<Rightarrow> objectId \<Rightarrow> objectId \<Rightarrow> real option" where
  "stored_points d aid sid =
     (case d aid of
        None \<Rightarrow> None
      | Some a \<Rightarrow>
          (case find (\<lambda>s. sub_id s = sid) (submissions a) of
             None \<Rightarrow> None
           | Some s \<Rightarrow> map_option points (grade s)))"

section \<open>Properties\<close>

subsection \<open>Auxiliary facts\<close>

text \<open>
  After validation has passed, \<open>req.body.content\<close> and \<open>req.body.points\<close> are defined:
  the branches of the handlers for an absent value are never taken.
\<close>

lemma validate_submit_content:
  "validate_submit uri b = None \<Longrightarrow> \<exists>c. req_content b = Some c"
  by (cases "req_content b") (simp_all add: validate_submit_def)

lemma validate_grade_req_points:
  "validate_grade b = None \<Longrightarrow> \<exists>p. req_points b = Some p"
  by (cases "req_points b") (simp_all add: validate_grade_def joi_number_min0_required_def)

lemma find_student_None:
  "(\<forall>s \<in> set ss. student s \<noteq> i) \<Longrightarrow> find (\<lambda>s. student s = i) ss = None"
  by (simp add: find_None_iff)

lemma validate_example_content:
  "validate_submit uri \<lparr>req_content = Some example_content\<rparr> = None"
  by (simp add: validate_submit_def joi_string_def joi_string_uri_def example_content_def)

lemma db_of_a1: "db_of a ''a1'' = Some a"
  by (simp add: db_of_def)

lemma with_submission_simps:
  "isPublished (with_submission t)"
  "allowLateSubmission (with_submission t)"
  "dueDate (with_submission t) = 1704844800000"
  "latePenalty (with_submission t) = 20"
  "instructor (with_submission t) = ''u1''"
  "maxPoints (with_submission t) = 100"
  "submissions (with_submission t) = [submission_at t]"
  by (simp_all add: with_submission_def example_assessment_def)

lemma submission_at_simps:
  "sub_id (submission_at t) = ''n1''"
  "student (submission_at t) = ''s1''"
  "isLate (submission_at t) = (1704844800000 < t)"
  "submittedAt (submission_at t) = t"
  by (simp_all add: submission_at_def)

lemma validate_grade_example:
  "0 \<le> p \<Longrightarrow> p \<le> 9007199254740991 \<Longrightarrow>
     validate_grade \<lparr>req_points = Some p, req_feedback = None\<rparr> = None"
  by (simp add: validate_grade_def joi_number_min0_required_def joi_string_def
        MAX_SAFE_INTEGER_def)

lemma validate_grade_points:
  "validate_grade b = None \<Longrightarrow> req_points b = Some p \<Longrightarrow> 0 \<le> p"
  by (auto simp: validate_grade_def joi_number_min0_required_def split: if_splits)

lemma find_update_first:
  "find P xs = Some s \<Longrightarrow> P (f s) \<Longrightarrow> find P (update_first P f xs) = Some (f s)"
  by (induction xs) (auto split: if_splits)

lemma find_submission_at:
  "find (\<lambda>s. sub_id s = ''n1'') (submissions (with_submission t)) = Some (submission_at t)"
  by (simp add: with_submission_simps submission_at_simps)

lemma owner1_owns: "instructor (with_submission t) = user_id owner1 \<or> isAdmin owner1"
  by (simp add: with_submission_simps owner1_def)

lemma grade_success:
  assumes "validate_grade b = None" and "req_points b = Some p" and "d aid = Some a"
    and "instructor a = user_id u \<or> isAdmin u"
    and "find (\<lambda>s. sub_id s = sid) (submissions a) = Some s"
  shows "fst (gradeSubmission rnd d u aid sid b now) =
           Inr (s\<lparr>grade := Some \<lparr>points = finalPoints rnd a s p, feedback = req_feedback b,
                                 gradedAt = now, gradedBy = user_id u\<rparr>,
                  status := Graded\<rparr>)"
    and "stored_points (snd (gradeSubmission rnd d u aid sid b now)) aid sid =
           Some (finalPoints rnd a s p)"
proof -
  let ?g = "\<lambda>s. s\<lparr>grade := Some \<lparr>points = finalPoints rnd a s p, feedback = req_feedback b,
                                 gradedAt = now, gradedBy = user_id u\<rparr>,
                  status := Graded\<rparr>"
  have r: "gradeSubmission rnd d u aid sid b now =
             (Inr (?g s),
              d(aid \<mapsto> a\<lparr>submissions :=
                   update_first (\<lambda>s. sub_id s = sid) ?g (submissions a)\<rparr>))"
    using assms by (auto simp: gradeSubmission_def Let_def)
  show "fst (gradeSubmission rnd d u aid sid b now) = Inr (?g s)"
    by (simp add: r)
  from assms(5) have "sub_id s = sid"
    by (auto dest: find_Some_iff [THEN iffD1])
  then have "sub_id (?g s) = sid"
    by simp
  with assms(5) have "find (\<lambda>s. sub_id s = sid)
      (update_first (\<lambda>s. sub_id s = sid) ?g (submissions a)) = Some (?g s)"
    by (rule find_update_first [where P = "\<lambda>s. sub_id s = sid"])
  then show "stored_points (snd (gradeSubmission rnd d u aid sid b now)) aid sid =
           Some (finalPoints rnd a s p)"
    by (simp add: r stored_points_def)
qed

text \<open>
  Binary64 values and roundings.
\<close>

lemma binary64_of_int: "\<bar>i\<bar> < 9007199254740992 \<Longrightarrow> binary64 (real_of_int i)"
  unfolding binary64_def
  by (rule exI [of _ i], rule exI [of _ 0]) simp

lemma binary64_div_pow2:
  "\<bar>m\<bar> < 9007199254740992 \<Longrightarrow> k \<le> 1074 \<Longrightarrow> binary64 (real_of_int m / 2 ^ k)"
  unfolding binary64_def
  by (rule exI [of _ m], rule exI [of _ k]) simp

lemma binary64_0: "binary64 0"
  using binary64_of_int [of 0] by simp

lemma binary64_1: "binary64 1"
  using binary64_of_int [of 1] by simp

lemma rounding_mono: "rounding rnd \<Longrightarrow> x \<le> y \<Longrightarrow> rnd x \<le> rnd y"
  by (simp add: rounding_def)

lemma rounding_exact: "rounding rnd \<Longrightarrow> binary64 x \<Longrightarrow> rnd x = x"
  by (simp add: rounding_def)

lemma rounding_0: "rounding rnd \<Longrightarrow> rnd 0 = 0"
  by (simp add: rounding_exact binary64_0)

lemma rounding_1: "rounding rnd \<Longrightarrow> rnd 1 = 1"
  by (simp add: rounding_exact binary64_1)


lemma rounding_nonpos: "rounding rnd \<Longrightarrow> x \<le> 0 \<Longrightarrow> rnd x \<le> 0"
  using rounding_mono [of rnd x 0] by (simp add: rounding_0)

lemma rounding_of_int:
  "rounding rnd \<Longrightarrow> \<bar>i\<bar> < 9007199254740992 \<Longrightarrow> rnd (real_of_int i) = real_of_int i"
  by (simp add: rounding_exact binary64_of_int)

lemma round_even_bounds: "\<lfloor>y\<rfloor> \<le> round_even y" "round_even y \<le> \<lfloor>y\<rfloor> + 1"
  by (simp_all add: round_even_def Let_def)

lemma round_even_of_int [simp]: "round_even (real_of_int n) = n"
  by (simp add: round_even_def)

lemma round_even_numeral [simp]: "round_even (numeral n) = numeral n"
  using round_even_of_int [of "numeral n"] by simp

lemma round_even_mono:
  assumes "y \<le> z"
  shows "round_even y \<le> round_even z"
proof (cases "\<lfloor>y\<rfloor> = \<lfloor>z\<rfloor>")
  case True
  with assms show ?thesis
    by (auto simp: round_even_def Let_def)
next
  case False
  with assms have "\<lfloor>y\<rfloor> < \<lfloor>z\<rfloor>"
    using floor_mono [of y z] by simp
  then have "\<lfloor>y\<rfloor> + 1 \<le> \<lfloor>z\<rfloor>"
    by simp
  with round_even_bounds(2) [of y] round_even_bounds(1) [of z] show ?thesis
    by linarith
qed

lemma round_even_minus: "round_even (- y) = - round_even y"
proof (cases "y = real_of_int \<lfloor>y\<rfloor>")
  case True
  then obtain n where y: "y = real_of_int n" ..
  have "round_even (real_of_int (- n)) = - n"
    by (rule round_even_of_int)
  then show ?thesis
    by (simp add: y)
next
  case False
  then have c: "\<lceil>y\<rceil> = \<lfloor>y\<rfloor> + 1"
    by (simp add: ceiling_altdef)
  have f: "\<lfloor>- y\<rfloor> = - \<lfloor>y\<rfloor> - 1"
    using c by (simp add: floor_minus)
  show ?thesis
    by (auto simp: round_even_def Let_def f)
qed

lemma round_even_nearest: "\<bar>y - real_of_int n\<bar> < 1 / 2 \<Longrightarrow> round_even y = n"
proof -
  assume a: "\<bar>y - real_of_int n\<bar> < 1 / 2"
  show ?thesis
  proof (cases "real_of_int n \<le> y")
    case True
    with a have "\<lfloor>y\<rfloor> = n"
      by (intro floor_unique) auto
    with a True show ?thesis
      by (auto simp: round_even_def Let_def)
  next
    case False
    with a have "\<lfloor>y\<rfloor> = n - 1"
      by (intro floor_unique) auto
    with a False show ?thesis
      by (auto simp: round_even_def Let_def)
  qed
qed

lemma ulp_search_range: "- 1074 \<le> ulp_search n x \<and> ulp_search n x \<le> int n - 1074"
  by (induction n) auto

lemma ulp_search_lower:
  "ulp_search n x \<noteq> - 1074 \<Longrightarrow> 2 powi (ulp_search n x + 52) \<le> \<bar>x\<bar>"
  by (induction n) (auto split: if_splits simp: algebra_simps)

lemma ulp_search_upper:
  "ulp_search n x < int n - 1074 \<Longrightarrow> \<bar>x\<bar> < 2 powi (ulp_search n x + 53)"
proof (induction n)
  case 0
  then show ?case by simp
next
  case (Suc n)
  show ?case
  proof (cases "2 powi (int n - 1021) \<le> \<bar>x\<bar>")
    case True
    with Suc.prems show ?thesis by simp
  next
    case False
    then have r: "ulp_search (Suc n) x = ulp_search n x"
      by simp
    show ?thesis
    proof (cases "ulp_search n x < int n - 1074")
      case True
      with Suc.IH r show ?thesis by simp
    next
      case f: False
      with ulp_search_range [of n x] have "ulp_search n x = int n - 1074"
        by simp
      then have e: "ulp_search n x + 53 = int n - 1021"
        by simp
      from False have "\<bar>x\<bar> < 2 powi (int n - 1021)"
        by simp
      then show ?thesis
        by (simp only: r e)
    qed
  qed
qed

lemma ulp_exp_range: "- 1074 \<le> ulp_exp x" "ulp_exp x \<le> 971"
  using ulp_search_range [of 2045 x] by (simp_all add: ulp_exp_def)

lemma ulp_exp_lower: "ulp_exp x \<noteq> - 1074 \<Longrightarrow> 2 powi (ulp_exp x + 52) \<le> \<bar>x\<bar>"
  unfolding ulp_exp_def by (rule ulp_search_lower)

lemma ulp_exp_upper: "ulp_exp x < 971 \<Longrightarrow> \<bar>x\<bar> < 2 powi (ulp_exp x + 53)"
  unfolding ulp_exp_def by (rule ulp_search_upper) simp

lemma pow2_mono: "i \<le> j \<Longrightarrow> (2::real) powi i \<le> 2 powi j"
  by (rule power_int_increasing) simp_all

lemma ulp_exp_mono:
  assumes "\<bar>x\<bar> \<le> \<bar>y\<bar>"
  shows "ulp_exp x \<le> ulp_exp y"
proof (rule ccontr)
  assume "\<not> ulp_exp x \<le> ulp_exp y"
  then have l: "ulp_exp y < ulp_exp x"
    by simp
  with ulp_exp_range(1) [of y] have "ulp_exp x \<noteq> - 1074"
    by simp
  then have a: "2 powi (ulp_exp x + 52) \<le> \<bar>x\<bar>"
    by (rule ulp_exp_lower)
  from l ulp_exp_range(2) [of x] have "ulp_exp y < 971"
    by simp
  then have b: "\<bar>y\<bar> < 2 powi (ulp_exp y + 53)"
    by (rule ulp_exp_upper)
  from l have "(2::real) powi (ulp_exp y + 53) \<le> 2 powi (ulp_exp x + 52)"
    by (intro pow2_mono) simp
  with a b assms show False
    by simp
qed

lemma ulp_exp_minus [simp]: "ulp_exp (- x) = ulp_exp x"
proof -
  have "ulp_search n (- x) = ulp_search n x" for n
    by (induction n) simp_all
  then show ?thesis
    by (simp add: ulp_exp_def)
qed

lemma ulp_exp_unique:
  assumes "- 1074 \<le> e" and "e \<le> 971"
    and "e = - 1074 \<or> 2 powi (e + 52) \<le> \<bar>x\<bar>"
    and "e = 971 \<or> \<bar>x\<bar> < 2 powi (e + 53)"
  shows "ulp_exp x = e"
proof (rule ccontr)
  assume n: "ulp_exp x \<noteq> e"
  show False
  proof (cases "ulp_exp x < e")
    case True
    with assms(2) have "ulp_exp x < 971"
      by simp
    then have b: "\<bar>x\<bar> < 2 powi (ulp_exp x + 53)"
      by (rule ulp_exp_upper)
    from True ulp_exp_range(1) [of x] assms(3) have a: "2 powi (e + 52) \<le> \<bar>x\<bar>"
      by auto
    from True have "(2::real) powi (ulp_exp x + 53) \<le> 2 powi (e + 52)"
      by (intro pow2_mono) simp
    with a b show False
      by simp
  next
    case False
    with n have g: "e < ulp_exp x"
      by simp
    with assms(1) have "ulp_exp x \<noteq> - 1074"
      by simp
    then have a: "2 powi (ulp_exp x + 52) \<le> \<bar>x\<bar>"
      by (rule ulp_exp_lower)
    from g ulp_exp_range(2) [of x] assms(4) have b: "\<bar>x\<bar> < 2 powi (e + 53)"
      by auto
    from g have "(2::real) powi (e + 53) \<le> 2 powi (ulp_exp x + 52)"
      by (intro pow2_mono) simp
    with a b show False
      by simp
  qed
qed


lemma pow2_add: "(2::real) powi (i + j) = 2 powi i * 2 powi j"
  by (rule power_int_add) simp

lemma pow2_pos: "0 < (2::real) powi i"
  by simp

lemma round_binary64_minus: "round_binary64 (- x) = - round_binary64 x"
  by (simp add: round_binary64_def round_even_minus)

lemma round_binary64_nonneg:
  assumes "0 \<le> x"
  shows "0 \<le> round_binary64 x"
proof -
  from assms have "0 \<le> x / 2 powi ulp_exp x"
    by simp
  then have "0 \<le> \<lfloor>x / 2 powi ulp_exp x\<rfloor>"
    by simp
  with round_even_bounds(1) [of "x / 2 powi ulp_exp x"]
  have "0 \<le> round_even (x / 2 powi ulp_exp x)"
    by linarith
  then show ?thesis
    by (simp add: round_binary64_def)
qed

lemma round_binary64_mono_nonneg:
  assumes "0 \<le> x" and "x \<le> y"
  shows "round_binary64 x \<le> round_binary64 y"
proof -
  let ?ex = "ulp_exp x" and ?ey = "ulp_exp y"
  from assms have "\<bar>x\<bar> \<le> \<bar>y\<bar>"
    by simp
  then have le: "?ex \<le> ?ey"
    by (rule ulp_exp_mono)
  show ?thesis
  proof (cases "?ex = ?ey")
    case True
    from assms(2) have "x / 2 powi ?ex \<le> y / 2 powi ?ex"
      by (simp add: divide_right_mono)
    then have "round_even (x / 2 powi ?ex) \<le> round_even (y / 2 powi ?ex)"
      by (rule round_even_mono)
    then have "real_of_int (round_even (x / 2 powi ?ex)) * 2 powi ?ex
                 \<le> real_of_int (round_even (y / 2 powi ?ex)) * 2 powi ?ex"
      by (simp add: mult_right_mono)
    with True show ?thesis
      by (simp add: round_binary64_def)
  next
    case False
    with le have lt: "?ex < ?ey"
      by simp
    with ulp_exp_range(2) [of y] have "?ex < 971"
      by simp
    then have "\<bar>x\<bar> < 2 powi (?ex + 53)"
      by (rule ulp_exp_upper)
    with assms(1) have "x \<le> 2 powi ?ex * 2 ^ 53"
      by (simp add: pow2_add)
    then have "x / 2 powi ?ex \<le> 2 ^ 53"
      by (simp add: pos_divide_le_eq mult.commute)
    then have "x / 2 powi ?ex \<le> real_of_int (2 ^ 53)"
      by simp
    then have "round_even (x / 2 powi ?ex) \<le> round_even (real_of_int (2 ^ 53))"
      by (rule round_even_mono)
    then have "real_of_int (round_even (x / 2 powi ?ex)) \<le> 2 ^ 53"
      by simp
    then have "real_of_int (round_even (x / 2 powi ?ex)) * 2 powi ?ex \<le> 2 ^ 53 * 2 powi ?ex"
      by (simp add: mult_right_mono)
    then have a: "round_binary64 x \<le> 2 powi (?ex + 53)"
      by (simp add: round_binary64_def pow2_add mult.commute)
    from lt ulp_exp_range(1) [of x] have "?ey \<noteq> - 1074"
      by simp
    then have "2 powi (?ey + 52) \<le> \<bar>y\<bar>"
      by (rule ulp_exp_lower)
    with assms have "2 powi ?ey * 2 ^ 52 \<le> y"
      by (simp add: pow2_add)
    then have "2 ^ 52 \<le> y / 2 powi ?ey"
      by (simp add: pos_le_divide_eq mult.commute)
    then have "real_of_int (2 ^ 52) \<le> y / 2 powi ?ey"
      by simp
    then have "round_even (real_of_int (2 ^ 52)) \<le> round_even (y / 2 powi ?ey)"
      by (rule round_even_mono)
    then have "2 ^ 52 \<le> real_of_int (round_even (y / 2 powi ?ey))"
      by simp
    then have "2 ^ 52 * 2 powi ?ey \<le> real_of_int (round_even (y / 2 powi ?ey)) * 2 powi ?ey"
      by (simp add: mult_right_mono)
    then have b: "2 powi (?ey + 52) \<le> round_binary64 y"
      by (simp add: round_binary64_def pow2_add mult.commute)
    from lt have "(2::real) powi (?ex + 53) \<le> 2 powi (?ey + 52)"
      by (intro pow2_mono) simp
    with a b show ?thesis
      by simp
  qed
qed

lemma round_binary64_mono:
  assumes "x \<le> y"
  shows "round_binary64 x \<le> round_binary64 y"
proof (cases "0 \<le> x")
  case True
  then show ?thesis
    using assms by (rule round_binary64_mono_nonneg)
next
  case False
  show ?thesis
  proof (cases "0 \<le> y")
    case True
    from False have "0 \<le> - x"
      by simp
    then have "0 \<le> round_binary64 (- x)"
      by (rule round_binary64_nonneg)
    then have "round_binary64 x \<le> 0"
      by (simp add: round_binary64_minus)
    with round_binary64_nonneg [OF True] show ?thesis
      by simp
  next
    case False
    then have "0 \<le> - y" and "- y \<le> - x"
      using assms by simp_all
    then have "round_binary64 (- y) \<le> round_binary64 (- x)"
      by (rule round_binary64_mono_nonneg)
    then show ?thesis
      by (simp add: round_binary64_minus)
  qed
qed

lemma round_binary64_scaled:
  assumes "\<bar>m\<bar> < 9007199254740992" and "- 1074 \<le> j" and "j \<le> 971"
  shows "round_binary64 (real_of_int m * 2 powi j) = real_of_int m * 2 powi j"
proof -
  define x where "x = real_of_int m * 2 powi j"
  define e where "e = ulp_exp x"
  have le: "e \<le> j"
  proof (cases "e = - 1074")
    case True
    with assms(2) show ?thesis by simp
  next
    case False
    then have a: "2 powi (e + 52) \<le> \<bar>x\<bar>"
      unfolding e_def by (rule ulp_exp_lower)
    from assms(1) have "\<bar>real_of_int m\<bar> < 9007199254740992"
      by linarith
    then have "\<bar>real_of_int m\<bar> * 2 powi j < 9007199254740992 * 2 powi j"
      by (intro mult_strict_right_mono) simp_all
    then have b: "\<bar>x\<bar> < 2 powi (j + 53)"
      by (simp add: x_def abs_mult pow2_add mult.commute)
    show ?thesis
    proof (rule ccontr)
      assume "\<not> e \<le> j"
      then have "(2::real) powi (j + 53) \<le> 2 powi (e + 52)"
        by (intro pow2_mono) simp
      with a b show False
        by simp
    qed
  qed
  define n where "n = nat (j - e)"
  have "(2::real) powi j = 2 powi (j - e) * 2 powi e"
    using pow2_add [of "j - e" e] by simp
  also have "(2::real) powi (j - e) = 2 ^ n"
    using le by (simp add: n_def power_int_nonneg_exp)
  finally have p: "(2::real) powi j = 2 ^ n * 2 powi e" .
  have x: "x = real_of_int (m * 2 ^ n) * 2 powi e"
    by (simp add: x_def p)
  then have "x / 2 powi e = real_of_int (m * 2 ^ n)"
    by simp
  then have "round_even (x / 2 powi e) = m * 2 ^ n"
    by (simp only: round_even_of_int)
  then have "round_binary64 x = real_of_int (m * 2 ^ n) * 2 powi e"
    by (simp only: round_binary64_def e_def)
  with x have "round_binary64 x = x"
    by simp
  then show ?thesis
    by (simp only: x_def)
qed

lemma round_binary64_exact:
  assumes "binary64 x"
  shows "round_binary64 x = x"
proof -
  from assms obtain m :: int and k :: nat where m: "\<bar>m\<bar> < 9007199254740992"
    and k: "(k \<le> 971 \<and> x = real_of_int m * 2 ^ k) \<or> (k \<le> 1074 \<and> x = real_of_int m / 2 ^ k)"
    unfolding binary64_def by blast
  from k show ?thesis
  proof
    assume a: "k \<le> 971 \<and> x = real_of_int m * 2 ^ k"
    then have "x = real_of_int m * 2 powi (int k)"
      by simp
    moreover from a have "- 1074 \<le> int k" "int k \<le> 971"
      by simp_all
    ultimately show ?thesis
      using round_binary64_scaled [OF m, of "int k"] by simp
  next
    assume a: "k \<le> 1074 \<and> x = real_of_int m / 2 ^ k"
    then have "x = real_of_int m * 2 powi (- int k)"
      by (simp add: power_int_minus field_simps)
    moreover from a have "- 1074 \<le> - int k" "- int k \<le> 971"
      by simp_all
    ultimately show ?thesis
      using round_binary64_scaled [OF m, of "- int k"] by simp
  qed
qed

lemma rounding_round_binary64: "rounding round_binary64"
  by (simp add: rounding_def round_binary64_mono round_binary64_exact)


lemma round_even_tie: "round_even (real_of_int n + 1 / 2) = (if even n then n else n + 1)"
proof -
  have "\<lfloor>real_of_int n + 1 / 2\<rfloor> = n"
    by (intro floor_unique) simp_all
  then show ?thesis
    by (simp add: round_even_def Let_def)
qed

lemma round_binary64_eval:
  assumes "- 1074 \<le> e" and "e \<le> 971"
    and "2 powi (e + 52) \<le> \<bar>x\<bar>" and "\<bar>x\<bar> < 2 powi (e + 53)"
    and "round_even (x / 2 powi e) = n"
  shows "round_binary64 x = real_of_int n * 2 powi e"
proof -
  have "ulp_exp x = e"
    using assms(1-4) by (intro ulp_exp_unique) simp_all
  with assms(5) show ?thesis
    by (simp add: round_binary64_def)
qed

lemma round_binary64_fifth: "round_binary64 (20 / 100) = 3602879701896397 / 2 ^ 54"
proof -
  have "round_even ((20 / 100) / 2 powi (- 55)) = 7205759403792794"
    by (intro round_even_nearest) (simp add: power_int_minus)
  then have "round_binary64 (20 / 100) = real_of_int 7205759403792794 * 2 powi (- 55)"
    by (intro round_binary64_eval) (simp_all add: power_int_minus)
  also have "\<dots> = 3602879701896397 / 2 ^ 54"
    by (simp add: power_int_minus)
  finally show ?thesis .
qed

lemma round_binary64_div_pow2:
  "\<bar>m\<bar> < 9007199254740992 \<Longrightarrow> k \<le> 1074 \<Longrightarrow>
     round_binary64 (real_of_int m / 2 ^ k) = real_of_int m / 2 ^ k"
  by (simp add: round_binary64_exact binary64_div_pow2)

lemma penalty_two_days: "penalty round_binary64 20 2 = real_of_int 3602879701896397 / 2 ^ 53"
proof -
  have "penalty round_binary64 20 2
          = round_binary64 (3602879701896397 / 2 ^ 54 * real_of_int 2)"
    by (simp only: penalty_def round_binary64_fifth)
  also have "3602879701896397 / 2 ^ 54 * real_of_int 2 = real_of_int 3602879701896397 / 2 ^ 53"
    by simp
  also have "round_binary64 (real_of_int 3602879701896397 / 2 ^ 53)
               = real_of_int 3602879701896397 / 2 ^ 53"
    by (rule round_binary64_div_pow2) simp_all
  finally show ?thesis .
qed

lemma points_two_days:
  "round_binary64 (90 * round_binary64 (1 - penalty round_binary64 20 2)) = 54"
proof -
  have d: "1 - penalty round_binary64 20 2 = real_of_int 5404319552844595 / 2 ^ 53"
    by (simp add: penalty_two_days)
  have e: "round_binary64 (real_of_int 5404319552844595 / 2 ^ 53)
      = real_of_int 5404319552844595 / 2 ^ 53"
    by (rule round_binary64_div_pow2) simp_all
  have a: "round_binary64 (1 - penalty round_binary64 20 2)
      = real_of_int 5404319552844595 / 2 ^ 53"
    by (simp only: d e)
  have "round_even ((90 * (real_of_int 5404319552844595 / 2 ^ 53)) / 2 powi (- 47))
          = 7599824371187712"
    by (intro round_even_nearest) (simp add: power_int_minus)
  then have "round_binary64 (90 * (real_of_int 5404319552844595 / 2 ^ 53))
      = real_of_int 7599824371187712 * 2 powi (- 47)"
    by (intro round_binary64_eval) (simp_all add: power_int_minus)
  also have "\<dots> = 54"
    by (simp add: power_int_minus)
  finally show ?thesis
    by (simp only: a)
qed

lemma penalty_three_days: "penalty round_binary64 20 3 = real_of_int 5404319552844596 / 2 ^ 53"
proof -
  have "(3602879701896397 / 2 ^ 54 * real_of_int 3) / 2 powi (- 53)
          = real_of_int 5404319552844595 + 1 / 2"
    by (simp add: power_int_minus)
  then have "round_even ((3602879701896397 / 2 ^ 54 * real_of_int 3) / 2 powi (- 53))
          = round_even (real_of_int 5404319552844595 + 1 / 2)"
    by (rule arg_cong)
  also have "\<dots> = 5404319552844596"
    by (simp only: round_even_tie) simp
  finally have "round_binary64 (3602879701896397 / 2 ^ 54 * real_of_int 3)
      = real_of_int 5404319552844596 * 2 powi (- 53)"
    by (intro round_binary64_eval) (simp_all add: power_int_minus)
  also have "\<dots> = real_of_int 5404319552844596 / 2 ^ 53"
    by (simp add: power_int_minus)
  finally show ?thesis
    by (simp only: penalty_def round_binary64_fifth)
qed

lemma points_three_days:
  "round_binary64 (90 * round_binary64 (1 - penalty round_binary64 20 3))
     = 5066549580791807 / 2 ^ 47"
proof -
  have d: "1 - penalty round_binary64 20 3 = real_of_int 3602879701896396 / 2 ^ 53"
    by (simp add: penalty_three_days)
  have e: "round_binary64 (real_of_int 3602879701896396 / 2 ^ 53)
      = real_of_int 3602879701896396 / 2 ^ 53"
    by (rule round_binary64_div_pow2) simp_all
  have a: "round_binary64 (1 - penalty round_binary64 20 3)
      = real_of_int 3602879701896396 / 2 ^ 53"
    by (simp only: d e)
  have "round_even ((90 * (real_of_int 3602879701896396 / 2 ^ 53)) / 2 powi (- 47))
          = 5066549580791807"
    by (intro round_even_nearest) (simp add: power_int_minus)
  then have "round_binary64 (90 * (real_of_int 3602879701896396 / 2 ^ 53))
      = real_of_int 5066549580791807 * 2 powi (- 47)"
    by (intro round_binary64_eval) (simp_all add: power_int_minus)
  also have "\<dots> = 5066549580791807 / 2 ^ 47"
    by (simp add: power_int_minus)
  finally show ?thesis
    by (simp only: a)
qed


lemma points_first_day:
  "round_binary64 (90 * round_binary64 (1 - round_binary64 (round_binary64 (20 / 100)))) = 72"
proof -
  have c: "round_binary64 (20 / 100) = real_of_int 3602879701896397 / 2 ^ 54"
    unfolding round_binary64_fifth by simp
  have e: "round_binary64 (real_of_int 3602879701896397 / 2 ^ 54)
      = real_of_int 3602879701896397 / 2 ^ 54"
    by (rule round_binary64_div_pow2) simp_all
  have "(1 - real_of_int 3602879701896397 / 2 ^ 54) / 2 powi (- 53)
          = real_of_int 7205759403792793 + 1 / 2"
    by (simp add: power_int_minus)
  then have "round_even ((1 - real_of_int 3602879701896397 / 2 ^ 54) / 2 powi (- 53))
          = round_even (real_of_int 7205759403792793 + 1 / 2)"
    by (rule arg_cong)
  also have "\<dots> = 7205759403792794"
    by (simp only: round_even_tie) simp
  finally have "round_binary64 (1 - real_of_int 3602879701896397 / 2 ^ 54)
      = real_of_int 7205759403792794 * 2 powi (- 53)"
    by (intro round_binary64_eval) (simp_all add: power_int_minus)
  also have "\<dots> = real_of_int 7205759403792794 / 2 ^ 53"
    by (simp add: power_int_minus)
  finally have a: "round_binary64 (1 - real_of_int 3602879701896397 / 2 ^ 54)
      = real_of_int 7205759403792794 / 2 ^ 53" .
  have "round_even ((90 * (real_of_int 7205759403792794 / 2 ^ 53)) / 2 powi (- 46))
          = 5066549580791808"
    by (intro round_even_nearest) (simp add: power_int_minus)
  then have "round_binary64 (90 * (real_of_int 7205759403792794 / 2 ^ 53))
      = real_of_int 5066549580791808 * 2 powi (- 46)"
    by (intro round_binary64_eval) (simp_all add: power_int_minus)
  also have "\<dots> = 72"
    by (simp add: power_int_minus)
  finally show ?thesis
    by (simp only: c e a)
qed

lemma penalty_six_days: "1 < penalty round_binary64 20 6"
proof -
  have "real_of_int 9 / 2 ^ 3 \<le> round_binary64 (20 / 100) * real_of_int 6"
    unfolding round_binary64_fifth by simp
  then have "round_binary64 (real_of_int 9 / 2 ^ 3)
      \<le> round_binary64 (round_binary64 (20 / 100) * real_of_int 6)"
    by (rule round_binary64_mono)
  moreover have "round_binary64 (real_of_int 9 / 2 ^ 3) = real_of_int 9 / 2 ^ 3"
    by (rule round_binary64_div_pow2) simp_all
  ultimately have "real_of_int 9 / 2 ^ 3 \<le> penalty round_binary64 20 6"
    by (simp only: penalty_def)
  then show ?thesis
    by simp
qed


lemma daysLate_first_day:
  assumes "rounding rnd" and "due < submitted" and "submitted \<le> due + 86400000"
  shows "daysLate rnd submitted due = 1"
proof -
  let ?n = "submitted - due"
  have n: "1 \<le> ?n" "?n \<le> 86400000"
    using assms(2,3) by simp_all
  then have "\<bar>?n\<bar> < 9007199254740992"
    by simp
  with assms(1) have "rnd (real_of_int ?n) = real_of_int ?n"
    by (rule rounding_of_int)
  then have d: "rnd (real_of_int submitted - real_of_int due) = real_of_int ?n"
    by simp
  let ?x = "real_of_int ?n / (1000 * 60 * 60 * 24)"
  have "1 \<le> real_of_int ?n" "real_of_int ?n \<le> 86400000"
    using n by simp_all
  then have lo: "1 / 2 ^ 27 \<le> ?x" and hi: "?x \<le> 1"
    by simp_all
  have "rnd (1 / 2 ^ 27) = 1 / 2 ^ 27"
    using assms(1) binary64_div_pow2 [of 1 27] by (simp add: rounding_exact)
  with rounding_mono [OF assms(1) lo] have "0 < rnd ?x"
    by simp
  moreover from rounding_mono [OF assms(1) hi] have "rnd ?x \<le> 1"
    by (simp add: rounding_1 [OF assms(1)])
  ultimately have "\<lceil>rnd ?x\<rceil> = 1"
    by (intro ceiling_unique) simp_all
  then show ?thesis
    by (simp only: daysLate_def d)
qed

lemma daysLate_whole_days:
  assumes "rounding rnd" and "\<bar>k\<bar> \<le> 100000000"
  shows "daysLate rnd (due + 86400000 * k) due = k"
proof -
  have "\<bar>86400000 * k\<bar> < 9007199254740992"
    using assms(2) by simp
  with assms(1) have "rnd (real_of_int (86400000 * k)) = real_of_int (86400000 * k)"
    by (rule rounding_of_int)
  then have d: "rnd (86400000 * real_of_int k) = 86400000 * real_of_int k"
    by simp
  have "\<bar>k\<bar> < 9007199254740992"
    using assms(2) by simp
  with assms(1) have "rnd (real_of_int k) = real_of_int k"
    by (rule rounding_of_int)
  then show ?thesis
    by (simp add: daysLate_def d)
qed




lemma joi_string_None: "joi_string p v = None \<longleftrightarrow> usable v"
  by (cases v) (simp_all add: joi_string_def usable_def)

lemma joi_string_uri_None: "joi_string_uri uri p v = None \<longleftrightarrow> usable_uri uri v"
  by (cases v) (simp_all add: joi_string_uri_def usable_uri_def)

lemma first_error_None: "first_error es = None \<longleftrightarrow> (\<forall>e \<in> set es. e = None)"
  by (induction es rule: first_error.induct) simp_all

subsection \<open>Submission\<close>

text \<open>
  Claim C6. A submit request that passes validation and names an assessment with
  \<open>isPublished\<close> false fails with status 400 and the message
  \<open>Assessment is not published\<close> (the specification's \<open>NotPublished\<close>), whatever the
  current time and the due date are, and the collection is left as it was: no submission
  is appended.
\<close>

theorem submit_unpublished:
  assumes "validate_submit uri b = None" and "d aid = Some a" and "\<not> isPublished a"
  shows "submitAssessment uri d u aid b now oid =
           (Inl (Error 400 ''Assessment is not published''), d)"
  using assms by (simp add: submitAssessment_def)

theorem submit_unpublished_witness:
  "validate_submit (\<lambda>s. True) \<lparr>req_content = Some example_content\<rparr> = None
   \<and> db_of (example_assessment\<lparr>isPublished := False\<rparr>) ''a1''
        = Some (example_assessment\<lparr>isPublished := False\<rparr>)
   \<and> \<not> isPublished (example_assessment\<lparr>isPublished := False\<rparr>)
   \<and> submitAssessment (\<lambda>s. True) (db_of (example_assessment\<lparr>isPublished := False\<rparr>))
        student1 ''a1'' \<lparr>req_content = Some example_content\<rparr> 1704931200000 ''n1''
      = (Inl (Error 400 ''Assessment is not published''),
         db_of (example_assessment\<lparr>isPublished := False\<rparr>))"
proof -
  have v: "validate_submit (\<lambda>s. True) \<lparr>req_content = Some example_content\<rparr> = None"
    by (rule validate_example_content)
  have l: "db_of (example_assessment\<lparr>isPublished := False\<rparr>) ''a1''
             = Some (example_assessment\<lparr>isPublished := False\<rparr>)"
    by (rule db_of_a1)
  have p: "\<not> isPublished (example_assessment\<lparr>isPublished := False\<rparr>)"
    by simp
  show ?thesis
    using v l p
      submit_unpublished
        [where d = "db_of (example_assessment\<lparr>isPublished := False\<rparr>)"
           and aid = "''a1''", OF v l p]
    by blast
qed

text \<open>
  Claim C7. For a published assessment and a submitter with no submission in it (the body
  having passed validation, with content \<open>c\<close>): after the due date the request fails with
  \<open>Submission deadline has passed\<close> (\<open>SubmissionClosed\<close>) and the collection is unchanged
  when late submissions are not allowed; it succeeds and appends a submission with
  \<open>isLate\<close> true and \<open>submittedAt = now\<close> when they are allowed; and at or before the
  due date it succeeds and appends a submission with \<open>isLate\<close> false.
\<close>

theorem submit_timing:
  assumes "validate_submit uri b = None" and "req_content b = Some c"
    and "d aid = Some a" and "isPublished a"
    and "\<forall>s \<in> set (submissions a). student s \<noteq> user_id u"
  shows "(dueDate a < now \<and> \<not> allowLateSubmission a \<longrightarrow>
            submitAssessment uri d u aid b now oid =
              (Inl (Error 400 ''Submission deadline has passed''), d))
       \<and> (dueDate a < now \<and> allowLateSubmission a \<longrightarrow>
            submitAssessment uri d u aid b now oid =
              (Inr \<lparr>ns_student = user_id u, ns_content = c,
                    ns_isLate = True, ns_submittedAt = now\<rparr>,
               d(aid \<mapsto> a\<lparr>submissions := submissions a @
                   [\<lparr>sub_id = oid, student = user_id u, content = c, isLate = True,
                     submittedAt = now, status = Submitted, grade = None\<rparr>]\<rparr>)))
       \<and> (now \<le> dueDate a \<longrightarrow>
            submitAssessment uri d u aid b now oid =
              (Inr \<lparr>ns_student = user_id u, ns_content = c,
                    ns_isLate = False, ns_submittedAt = now\<rparr>,
               d(aid \<mapsto> a\<lparr>submissions := submissions a @
                   [\<lparr>sub_id = oid, student = user_id u, content = c, isLate = False,
                     submittedAt = now, status = Submitted, grade = None\<rparr>]\<rparr>)))"
proof -
  from assms(5) have nf: "find (\<lambda>s. student s = user_id u) (submissions a) = None"
    by (rule find_student_None)
  show ?thesis
    using assms(1-4) nf by (simp add: submitAssessment_def push_submission_def Let_def)
qed

theorem submit_timing_witness:
  "submitAssessment (\<lambda>s. True) (db_of ((with_submission 1704758400000)\<lparr>allowLateSubmission := False\<rparr>))
       student2 ''a1'' \<lparr>req_content = Some example_content\<rparr> 1705017600000 ''n2''
     = (Inl (Error 400 ''Submission deadline has passed''),
        db_of ((with_submission 1704758400000)\<lparr>allowLateSubmission := False\<rparr>))
   \<and> fst (submitAssessment (\<lambda>s. True) (db_of (with_submission 1704758400000))
       student2 ''a1'' \<lparr>req_content = Some example_content\<rparr> 1705017600000 ''n2'')
     = Inr \<lparr>ns_student = ''s2'', ns_content = example_content,
            ns_isLate = True, ns_submittedAt = 1705017600000\<rparr>
   \<and> fst (submitAssessment (\<lambda>s. True) (db_of (with_submission 1704758400000))
       student2 ''a1'' \<lparr>req_content = Some example_content\<rparr> 1704844800000 ''n2'')
     = Inr \<lparr>ns_student = ''s2'', ns_content = example_content,
            ns_isLate = False, ns_submittedAt = 1704844800000\<rparr>"
proof -
  let ?a = "with_submission 1704758400000"
  let ?b = "\<lparr>req_content = Some example_content\<rparr>"
  have v: "validate_submit (\<lambda>s. True) ?b = None"
    by (rule validate_example_content)
  have c: "req_content ?b = Some example_content"
    by simp
  have p: "isPublished ?a" "isPublished (?a\<lparr>allowLateSubmission := False\<rparr>)"
    by (simp_all add: with_submission_simps)
  have n: "\<forall>s \<in> set (submissions ?a). student s \<noteq> user_id student2"
    "\<forall>s \<in> set (submissions (?a\<lparr>allowLateSubmission := False\<rparr>)). student s \<noteq> user_id student2"
    by (simp_all add: with_submission_simps submission_at_simps student2_def)
  note closed = submit_timing [where d = "db_of (?a\<lparr>allowLateSubmission := False\<rparr>)"
      and aid = "''a1''" and now = 1705017600000 and oid = "''n2''", OF v c db_of_a1 p(2) n(2)]
  note late = submit_timing [where d = "db_of ?a"
      and aid = "''a1''" and now = 1705017600000 and oid = "''n2''", OF v c db_of_a1 p(1) n(1)]
  note ontime = submit_timing [where d = "db_of ?a"
      and aid = "''a1''" and now = 1704844800000 and oid = "''n2''", OF v c db_of_a1 p(1) n(1)]
  show ?thesis
    using closed late ontime by (simp add: with_submission_simps student2_def)
qed

text \<open>
  Claim C5. A submit request (valid body, published assessment) by a student who already
  has a submission fails with \<open>Assessment already submitted\<close> (\<open>DuplicateSubmission\<close>)
  and leaves the collection, hence the submissions sequence, unchanged. Consequently
  \<open>submitAssessment\<close> keeps the students of an assessment's submissions pairwise distinct,
  whatever its outcome, and does not touch any other assessment.
\<close>

theorem submit_duplicate:
  assumes "d aid = Some a"
  shows "(validate_submit uri b = None \<and> isPublished a
            \<and> (\<exists>s \<in> set (submissions a). student s = user_id u) \<longrightarrow>
          submitAssessment uri d u aid b now oid =
            (Inl (Error 400 ''Assessment already submitted''), d))
       \<and> (distinct (map student (submissions a)) \<longrightarrow>
            (\<exists>a'. snd (submitAssessment uri d u aid b now oid) aid = Some a'
                  \<and> distinct (map student (submissions a'))))
       \<and> (x \<noteq> aid \<longrightarrow> snd (submitAssessment uri d u aid b now oid) x = d x)"
proof (intro conjI impI)
  assume h: "validate_submit uri b = None \<and> isPublished a
            \<and> (\<exists>s \<in> set (submissions a). student s = user_id u)"
  then have "find (\<lambda>s. student s = user_id u) (submissions a) \<noteq> None"
    by (auto simp: find_None_iff)
  then obtain e where "find (\<lambda>s. student s = user_id u) (submissions a) = Some e"
    by blast
  with h assms show "submitAssessment uri d u aid b now oid =
            (Inl (Error 400 ''Assessment already submitted''), d)"
    by (simp add: submitAssessment_def)
next
  assume dis: "distinct (map student (submissions a))"
  show "\<exists>a'. snd (submitAssessment uri d u aid b now oid) aid = Some a'
                  \<and> distinct (map student (submissions a'))"
  proof (cases "find (\<lambda>s. student s = user_id u) (submissions a)")
    case None
    then have "user_id u \<notin> student ` set (submissions a)"
      by (auto simp: find_None_iff)
    with dis None assms show ?thesis
      by (auto simp: submitAssessment_def push_submission_def Let_def split: option.splits)
  next
    case (Some e)
    with dis assms show ?thesis
      by (auto simp: submitAssessment_def split: option.splits)
  qed
next
  assume "x \<noteq> aid"
  then show "snd (submitAssessment uri d u aid b now oid) x = d x"
    by (auto simp: submitAssessment_def Let_def split: option.splits)
qed

theorem submit_duplicate_witness:
  "submitAssessment (\<lambda>s. True) (db_of (with_submission 1704758400000))
       student1 ''a1'' \<lparr>req_content = Some example_content\<rparr> 1704800000000 ''n2''
     = (Inl (Error 400 ''Assessment already submitted''), db_of (with_submission 1704758400000))
   \<and> distinct (map student (submissions (with_submission 1704758400000)))
   \<and> (\<exists>a'. snd (submitAssessment (\<lambda>s. True) (db_of (with_submission 1704758400000))
               student2 ''a1'' \<lparr>req_content = Some example_content\<rparr> 1704800000000 ''n2'') ''a1''
             = Some a'
          \<and> distinct (map student (submissions a')))
   \<and> snd (submitAssessment (\<lambda>s. True) (db_of (with_submission 1704758400000))
               student2 ''a1'' \<lparr>req_content = Some example_content\<rparr> 1704800000000 ''n2'') ''a2''
       = None"
proof -
  let ?a = "with_submission 1704758400000"
  let ?b = "\<lparr>req_content = Some example_content\<rparr>"
  have v: "validate_submit (\<lambda>s. True) ?b = None"
    by (rule validate_example_content)
  have e: "\<exists>s \<in> set (submissions ?a). student s = user_id student1"
    by (simp add: with_submission_simps submission_at_simps student1_def)
  have dis: "distinct (map student (submissions ?a))"
    by (simp add: with_submission_simps)
  have ne: "''a2'' \<noteq> ''a1''"
    by simp
  note dup = submit_duplicate [where d = "db_of ?a" and aid = "''a1''" and u = student1
      and uri = "\<lambda>s. True" and b = ?b and now = 1704800000000 and oid = "''n2''", OF db_of_a1]
  note other = submit_duplicate [where d = "db_of ?a" and aid = "''a1''" and u = student2
      and uri = "\<lambda>s. True" and b = ?b and now = 1704800000000 and oid = "''n2''"
      and x = "''a2''", OF db_of_a1]
  show ?thesis
    using dup other v e dis ne by (simp add: with_submission_simps db_of_def)
qed


text \<open>
  Claim C9, as the handler has it. Validation of a submit request fails, and the handler
  returns the validation error and leaves the collection unchanged, when the body has no
  content object, and when a field of the content object that is present is not usable
  (an empty string, or a \<open>githubUrl\<close> or \<open>websiteUrl\<close> that is not a well-formed URI). No
  field has to be present: the content object with no fields passes validation, and the
  submission is stored when the assessment accepts it.
\<close>

theorem submit_validation:
  "(req_content b = None \<longrightarrow>
      submitAssessment uri d u aid b now oid =
        (Inl (ValidationError \<lparr>path = [''content''], code = ''any.required''\<rparr>), d))
   \<and> (req_content b = Some c \<and> \<not> structurally_valid uri c \<longrightarrow>
        (\<exists>e. submitAssessment uri d u aid b now oid = (Inl (ValidationError e), d)))
   \<and> (req_content b = Some empty_content \<longrightarrow> validate_submit uri b = None)
   \<and> (req_content b = Some empty_content \<and> d aid = Some a \<and> isPublished a
        \<and> (\<forall>s \<in> set (submissions a). student s \<noteq> user_id u)
        \<and> (now \<le> dueDate a \<or> allowLateSubmission a) \<longrightarrow>
        submitAssessment uri d u aid b now oid =
          (Inr \<lparr>ns_student = user_id u, ns_content = empty_content,
                ns_isLate = (dueDate a < now), ns_submittedAt = now\<rparr>,
           d(aid \<mapsto> a\<lparr>submissions := submissions a @
               [\<lparr>sub_id = oid, student = user_id u, content = empty_content,
                 isLate = (dueDate a < now), submittedAt = now, status = Submitted,
                 grade = None\<rparr>]\<rparr>)))"
proof (intro conjI impI)
  assume "req_content b = None"
  then show "submitAssessment uri d u aid b now oid =
          (Inl (ValidationError \<lparr>path = [''content''], code = ''any.required''\<rparr>), d)"
    by (simp add: submitAssessment_def validate_submit_def)
next
  assume h: "req_content b = Some c \<and> \<not> structurally_valid uri c"
  then have "first_error
            [joi_string [''content'', ''text''] (content_text c),
             joi_string [''content'', ''fileUrl''] (fileUrl c),
             joi_string [''content'', ''fileName''] (fileName c),
             joi_string_uri uri [''content'', ''githubUrl''] (githubUrl c),
             joi_string_uri uri [''content'', ''websiteUrl''] (websiteUrl c)] \<noteq> None"
    by (simp add: first_error_None joi_string_None joi_string_uri_None
          structurally_valid_def)
  with h have "validate_submit uri b \<noteq> None"
    by (simp add: validate_submit_def)
  then obtain e where "validate_submit uri b = Some e"
    by blast
  then have "submitAssessment uri d u aid b now oid = (Inl (ValidationError e), d)"
    by (simp add: submitAssessment_def)
  then show "\<exists>e. submitAssessment uri d u aid b now oid = (Inl (ValidationError e), d)"
    by blast
next
  assume "req_content b = Some empty_content"
  then show "validate_submit uri b = None"
    by (simp add: validate_submit_def joi_string_def joi_string_uri_def empty_content_def)
next
  assume h: "req_content b = Some empty_content \<and> d aid = Some a \<and> isPublished a
        \<and> (\<forall>s \<in> set (submissions a). student s \<noteq> user_id u)
        \<and> (now \<le> dueDate a \<or> allowLateSubmission a)"
  then have v: "validate_submit uri b = None"
    by (simp add: validate_submit_def joi_string_def joi_string_uri_def empty_content_def)
  from h have nf: "find (\<lambda>s. student s = user_id u) (submissions a) = None"
    by (simp add: find_student_None)
  from h v nf show "submitAssessment uri d u aid b now oid =
          (Inr \<lparr>ns_student = user_id u, ns_content = empty_content,
                ns_isLate = (dueDate a < now), ns_submittedAt = now\<rparr>,
           d(aid \<mapsto> a\<lparr>submissions := submissions a @
               [\<lparr>sub_id = oid, student = user_id u, content = empty_content,
                 isLate = (dueDate a < now), submittedAt = now, status = Submitted,
                 grade = None\<rparr>]\<rparr>))"
    by (auto simp: submitAssessment_def push_submission_def Let_def)
qed

theorem submit_validation_witness:
  "submitAssessment (\<lambda>s. False) (db_of example_assessment) student1 ''a1''
       \<lparr>req_content = None\<rparr> 1704758400000 ''n1''
     = (Inl (ValidationError \<lparr>path = [''content''], code = ''any.required''\<rparr>),
        db_of example_assessment)
   \<and> \<not> structurally_valid (\<lambda>s. False) (example_content\<lparr>content_text := Some []\<rparr>)
   \<and> (\<exists>e. submitAssessment (\<lambda>s. False) (db_of example_assessment) student1 ''a1''
         \<lparr>req_content = Some (example_content\<lparr>content_text := Some []\<rparr>)\<rparr>
         1704758400000 ''n1''
       = (Inl (ValidationError e), db_of example_assessment))
   \<and> \<not> structurally_valid (\<lambda>s. False) (example_content\<lparr>githubUrl := Some ''x''\<rparr>)
   \<and> (\<exists>e. submitAssessment (\<lambda>s. False) (db_of example_assessment) student1 ''a1''
         \<lparr>req_content = Some (example_content\<lparr>githubUrl := Some ''x''\<rparr>)\<rparr>
         1704758400000 ''n1''
       = (Inl (ValidationError e), db_of example_assessment))
   \<and> validate_submit (\<lambda>s. False) \<lparr>req_content = Some empty_content\<rparr> = None
   \<and> fst (submitAssessment (\<lambda>s. False) (db_of (with_submission 1704758400000)) student2
         ''a1'' \<lparr>req_content = Some empty_content\<rparr> 1704800000000 ''n2'')
       = Inr \<lparr>ns_student = ''s2'', ns_content = empty_content, ns_isLate = False,
              ns_submittedAt = 1704800000000\<rparr>"
proof -
  have n1: "\<not> structurally_valid (\<lambda>s. False) (example_content\<lparr>content_text := Some []\<rparr>)"
    by (simp add: structurally_valid_def usable_def)
  have n2: "\<not> structurally_valid (\<lambda>s. False) (example_content\<lparr>githubUrl := Some ''x''\<rparr>)"
    by (simp add: structurally_valid_def usable_uri_def)
  have h: "isPublished (with_submission 1704758400000)"
    "\<forall>s \<in> set (submissions (with_submission 1704758400000)). student s \<noteq> user_id student2"
    "1704800000000 \<le> dueDate (with_submission 1704758400000)
       \<or> allowLateSubmission (with_submission 1704758400000)"
    by (simp_all add: with_submission_simps submission_at_simps student2_def)
  note a = submit_validation [where uri = "\<lambda>s. False" and b = "\<lparr>req_content = None\<rparr>"
      and d = "db_of example_assessment" and u = student1 and aid = "''a1''"
      and now = 1704758400000 and oid = "''n1''"]
  note b = submit_validation [where uri = "\<lambda>s. False"
      and b = "\<lparr>req_content = Some (example_content\<lparr>content_text := Some []\<rparr>)\<rparr>"
      and c = "example_content\<lparr>content_text := Some []\<rparr>"
      and d = "db_of example_assessment" and u = student1 and aid = "''a1''"
      and now = 1704758400000 and oid = "''n1''"]
  note c = submit_validation [where uri = "\<lambda>s. False"
      and b = "\<lparr>req_content = Some (example_content\<lparr>githubUrl := Some ''x''\<rparr>)\<rparr>"
      and c = "example_content\<lparr>githubUrl := Some ''x''\<rparr>"
      and d = "db_of example_assessment" and u = student1 and aid = "''a1''"
      and now = 1704758400000 and oid = "''n1''"]
  note d = submit_validation [where uri = "\<lambda>s. False"
      and b = "\<lparr>req_content = Some empty_content\<rparr>"
      and d = "db_of (with_submission 1704758400000)" and u = student2 and aid = "''a1''"
      and a = "with_submission 1704758400000"
      and now = 1704800000000 and oid = "''n2''"]
  from a have 1: "submitAssessment (\<lambda>s. False) (db_of example_assessment) student1 ''a1''
       \<lparr>req_content = None\<rparr> 1704758400000 ''n1''
     = (Inl (ValidationError \<lparr>path = [''content''], code = ''any.required''\<rparr>),
        db_of example_assessment)"
    by simp
  from b n1 have 2: "\<exists>e. submitAssessment (\<lambda>s. False) (db_of example_assessment) student1 ''a1''
         \<lparr>req_content = Some (example_content\<lparr>content_text := Some []\<rparr>)\<rparr>
         1704758400000 ''n1''
       = (Inl (ValidationError e), db_of example_assessment)"
    by simp
  from c n2 have 3: "\<exists>e. submitAssessment (\<lambda>s. False) (db_of example_assessment) student1 ''a1''
         \<lparr>req_content = Some (example_content\<lparr>githubUrl := Some ''x''\<rparr>)\<rparr>
         1704758400000 ''n1''
       = (Inl (ValidationError e), db_of example_assessment)"
    by simp
  from d have 4: "validate_submit (\<lambda>s. False) \<lparr>req_content = Some empty_content\<rparr> = None"
    by simp
  from d h db_of_a1 [of "with_submission 1704758400000"]
  have 5: "fst (submitAssessment (\<lambda>s. False) (db_of (with_submission 1704758400000)) student2
         ''a1'' \<lparr>req_content = Some empty_content\<rparr> 1704800000000 ''n2'')
       = Inr \<lparr>ns_student = ''s2'', ns_content = empty_content, ns_isLate = False,
              ns_submittedAt = 1704800000000\<rparr>"
    by (simp add: with_submission_simps student2_def)
  from 1 n1 2 n2 3 4 5 show ?thesis
    by blast
qed

text \<open>
  The empty content object is accepted and stored, against the claim that a request
  whose content is an empty object is rejected.
\<close>

theorem submit_validation_counterexample:
  "validate_submit (\<lambda>s. False) \<lparr>req_content = Some empty_content\<rparr> = None
   \<and> submitAssessment (\<lambda>s. False) (db_of example_assessment) student1 ''a1''
       \<lparr>req_content = Some empty_content\<rparr> 1704758400000 ''n1''
     = (Inr \<lparr>ns_student = ''s1'', ns_content = empty_content, ns_isLate = False,
             ns_submittedAt = 1704758400000\<rparr>,
        db_of (example_assessment\<lparr>submissions :=
          [\<lparr>sub_id = ''n1'', student = ''s1'', content = empty_content, isLate = False,
            submittedAt = 1704758400000, status = Submitted, grade = None\<rparr>]\<rparr>))"
proof -
  have v: "validate_submit (\<lambda>s. False) \<lparr>req_content = Some empty_content\<rparr> = None"
    by (simp add: validate_submit_def joi_string_def joi_string_uri_def empty_content_def)
  show ?thesis
    by (simp add: v submitAssessment_def db_of_def push_submission_def student1_def Let_def
          example_assessment_def)
qed

subsection \<open>Reading and updating\<close>

text \<open>
  Claim C8, as the handler has it. On a published assessment, a requester who is neither
  the assessment's own instructor nor an admin receives exactly the submissions whose
  student is the requester (none when there is no such submission); the assessment's own
  instructor and every admin receive all submissions.
\<close>

theorem get_submissions_view:
  assumes "d aid = Some a" and "isPublished a"
  shows "getAssessmentById d u aid =
           Inr (a\<lparr>submissions :=
                  if instructor a = user_id u \<or> isAdmin u then submissions a
                  else filter (\<lambda>s. student s = user_id u) (submissions a)\<rparr>)"
  using assms by (simp add: getAssessmentById_def Let_def)

theorem get_submissions_view_witness:
  "getAssessmentById (db_of (with_submission 1704758400000)) owner1 ''a1''
     = Inr (with_submission 1704758400000)
   \<and> getAssessmentById (db_of (with_submission 1704758400000)) student1 ''a1''
     = Inr (with_submission 1704758400000)
   \<and> getAssessmentById (db_of (with_submission 1704758400000)) student2 ''a1''
     = Inr example_assessment"
proof -
  let ?a = "with_submission 1704758400000"
  have p: "isPublished ?a"
    by (simp add: with_submission_simps)
  note g = get_submissions_view [where d = "db_of ?a" and aid = "''a1''", OF db_of_a1 p]
  show ?thesis
    using g [of owner1] g [of student1] g [of student2]
    by (simp add: with_submission_simps submission_at_simps owner1_def student1_def
          student2_def)
       (simp add: with_submission_def example_assessment_def)
qed

text \<open>
  An instructor who does not own the published assessment receives no submission,
  although the assessment has one.
\<close>

theorem get_submissions_view_counterexample:
  "isPublished (with_submission 1704758400000)
   \<and> isInstructor instructor2
   \<and> getAssessmentById (db_of (with_submission 1704758400000)) instructor2 ''a1''
       = Inr ((with_submission 1704758400000)\<lparr>submissions := []\<rparr>)
   \<and> submissions (with_submission 1704758400000) \<noteq> []"
  by (simp add: getAssessmentById_def db_of_def with_submission_simps submission_at_simps
        instructor2_def)

text \<open>
  Claim C3. An authorized update stores the document returned by \<open>findByIdAndUpdate\<close>.
  With the immutable paths of the spec's data model, the course and the instructor of
  that document are those of the stored one, whatever the body contains. Under any
  schema they are unchanged when the body names neither of them, since the handler
  passes the body on as it is.
\<close>

theorem update_course_instructor:
  assumes "d aid = Some a" and "instructor a = user_id u \<or> isAdmin u"
  shows "(\<exists>a'. updateAssessment immutable_paths d u aid b = (Inr a', d(aid \<mapsto> a'))
            \<and> course a' = course a \<and> instructor a' = instructor a)
       \<and> (upd_course b = None \<and> upd_instructor b = None \<longrightarrow>
            (\<exists>a'. updateAssessment imm d u aid b = (Inr a', d(aid \<mapsto> a'))
                  \<and> course a' = course a \<and> instructor a' = instructor a))"
  using assms
  by (auto simp: updateAssessment_def findByIdAndUpdate_def set_mutable_def
        immutable_paths_def Let_def)

theorem update_course_instructor_witness:
  "instructor example_assessment = user_id owner1
   \<and> (\<exists>a'. updateAssessment immutable_paths (db_of example_assessment) owner1 ''a1''
            (empty_update\<lparr>upd_title := Some ''Essay 2'', upd_course := Some ''c2'',
               upd_instructor := Some ''u2''\<rparr>)
          = (Inr a', (db_of example_assessment)(''a1'' \<mapsto> a'))
        \<and> title a' = ''Essay 2'' \<and> course a' = ''c1'' \<and> instructor a' = ''u1'')
   \<and> (\<exists>a'. updateAssessment [] (db_of example_assessment) owner1 ''a1''
            (empty_update\<lparr>upd_title := Some ''Essay 2''\<rparr>)
          = (Inr a', (db_of example_assessment)(''a1'' \<mapsto> a'))
        \<and> title a' = ''Essay 2'' \<and> course a' = ''c1'' \<and> instructor a' = ''u1'')"
proof -
  let ?b = "empty_update\<lparr>upd_title := Some ''Essay 2'', upd_course := Some ''c2'',
               upd_instructor := Some ''u2''\<rparr>"
  let ?c = "empty_update\<lparr>upd_title := Some ''Essay 2''\<rparr>"
  have o: "instructor example_assessment = user_id owner1 \<or> isAdmin owner1"
    and o': "instructor example_assessment = user_id owner1"
    by (simp_all add: example_assessment_def owner1_def)
  have n: "upd_course ?c = None \<and> upd_instructor ?c = None"
    by (simp add: empty_update_def)
  note g = update_course_instructor [where d = "db_of example_assessment"
      and aid = "''a1''" and b = ?b, OF db_of_a1 o]
  note h = update_course_instructor [where d = "db_of example_assessment"
      and aid = "''a1''" and b = ?c and imm = "[]", OF db_of_a1 o]
  from g obtain a' where a': "updateAssessment immutable_paths (db_of example_assessment)
       owner1 ''a1'' ?b = (Inr a', (db_of example_assessment)(''a1'' \<mapsto> a'))"
      "course a' = course example_assessment" "instructor a' = instructor example_assessment"
    by blast
  from a'(1) have "a' = findByIdAndUpdate immutable_paths example_assessment ?b"
    by (simp add: updateAssessment_def db_of_a1 o' Let_def)
  then have t: "title a' = ''Essay 2''"
    by (simp add: findByIdAndUpdate_def set_mutable_def immutable_paths_def)
  from h n obtain a'' where a'': "updateAssessment [] (db_of example_assessment)
       owner1 ''a1'' ?c = (Inr a'', (db_of example_assessment)(''a1'' \<mapsto> a''))"
      "course a'' = course example_assessment"
      "instructor a'' = instructor example_assessment"
    by blast
  from a''(1) have "a'' = findByIdAndUpdate [] example_assessment ?c"
    by (simp add: updateAssessment_def db_of_a1 o' Let_def)
  then have t': "title a'' = ''Essay 2''"
    by (simp add: findByIdAndUpdate_def set_mutable_def)
  have ci: "course example_assessment = ''c1''" "instructor example_assessment = ''u1''"
    by (simp_all add: example_assessment_def)
  from a' t a'' t' o' ci show ?thesis
    by auto
qed

subsection \<open>Grading\<close>

text \<open>
  Claim C4, as the handler has it. A grade request (valid body, existing assessment) that
  names a submission id absent from the assessment fails and leaves the collection
  unchanged; the ownership check comes first, so the failure is status 403 for a
  principal who is neither the assessment's instructor nor an admin, and status 404
  \<open>Submission not found\<close> for the instructor and for an admin.
\<close>

theorem grade_missing_submission:
  assumes "validate_grade b = None" and "d aid = Some a"
    and "\<forall>s \<in> set (submissions a). sub_id s \<noteq> sid"
  shows "gradeSubmission rnd d u aid sid b now =
           (if instructor a \<noteq> user_id u \<and> \<not> isAdmin u
            then (Inl (Error 403 ''Not authorized to grade this assessment''), d)
            else (Inl (Error 404 ''Submission not found''), d))"
proof -
  from assms(3) have "find (\<lambda>s. sub_id s = sid) (submissions a) = None"
    by (simp add: find_None_iff)
  with assms(1,2) show ?thesis
    by (simp add: gradeSubmission_def)
qed

theorem grade_missing_submission_witness:
  "gradeSubmission round_binary64 (db_of (with_submission 1704758400000)) owner1 ''a1'' ''n9''
       \<lparr>req_points = Some 80, req_feedback = None\<rparr> 1705000000000
     = (Inl (Error 404 ''Submission not found''), db_of (with_submission 1704758400000))
   \<and> gradeSubmission round_binary64 (db_of (with_submission 1704758400000)) student2 ''a1'' ''n9''
       \<lparr>req_points = Some 80, req_feedback = None\<rparr> 1705000000000
     = (Inl (Error 403 ''Not authorized to grade this assessment''),
        db_of (with_submission 1704758400000))"
proof -
  let ?a = "with_submission 1704758400000"
  have v: "validate_grade \<lparr>req_points = Some 80, req_feedback = None\<rparr> = None"
    by (rule validate_grade_example) simp_all
  have n: "\<forall>s \<in> set (submissions ?a). sub_id s \<noteq> ''n9''"
    by (simp add: with_submission_simps submission_at_simps)
  note g = grade_missing_submission [where d = "db_of ?a" and aid = "''a1''" and sid = "''n9''",
      OF v db_of_a1 n]
  show ?thesis
    using g [where rnd = round_binary64 and u = owner1 and now = 1705000000000]
      g [where rnd = round_binary64 and u = student2 and now = 1705000000000]
    by (simp add: with_submission_simps owner1_def student2_def)
qed

text \<open>
  A student who grades a submission id that does not exist receives 403, not 404.
\<close>

theorem grade_missing_submission_counterexample:
  "validate_grade \<lparr>req_points = Some 80, req_feedback = None\<rparr> = None
   \<and> find (\<lambda>s. sub_id s = ''n9'') (submissions (with_submission 1704758400000)) = None
   \<and> instructor (with_submission 1704758400000) \<noteq> user_id student2
   \<and> \<not> isAdmin student2
   \<and> fst (gradeSubmission round_binary64 (db_of (with_submission 1704758400000)) student2 ''a1'' ''n9''
            \<lparr>req_points = Some 80, req_feedback = None\<rparr> 1705000000000)
       = Inl (Error 403 ''Not authorized to grade this assessment'')
   \<and> fst (gradeSubmission round_binary64 (db_of (with_submission 1704758400000)) student2 ''a1'' ''n9''
            \<lparr>req_points = Some 80, req_feedback = None\<rparr> 1705000000000)
       \<noteq> Inl (Error 404 ''Submission not found'')"
  by (simp add: gradeSubmission_def validate_grade_example db_of_a1 with_submission_simps
        submission_at_simps student2_def)

text \<open>
  Claim C2. When a late submission of an assessment with a positive late penalty is
  graded with \<open>p\<close> points, the stored points are
  \<open>max 0 (p * (1 - latePenalty / 100 * daysLate))\<close> with
  \<open>daysLate = ceil ((submittedAt - dueDate) / 86400000)\<close>, each operation being the
  rounded one of the source (the equation holds for every \<open>rnd\<close>). For a rounding, a
  submission within the first day after the due date (one second late, for instance) is
  charged exactly one day; and the penalty fraction is not capped: when it exceeds 1 the
  stored points are 0. In binary64 arithmetic, 90 points at a penalty of 20 are stored as
  54 two days late, as \<open>5066549580791807 / 2 ^ 47\<close> (just below 36) three days late, as
  72 one second late and as 0 six days late.
\<close>

theorem grade_late_penalty:
  assumes "validate_grade b = None" and "req_points b = Some p" and "d aid = Some a"
    and "instructor a = user_id u \<or> isAdmin u"
    and "find (\<lambda>s. sub_id s = sid) (submissions a) = Some s"
    and "isLate s" and "0 < latePenalty a" and "latePenalty a \<le> 100"
  shows "stored_points (snd (gradeSubmission rnd d u aid sid b now)) aid sid =
           Some (max 0 (rnd (p * rnd (1 - rnd (rnd (latePenalty a / 100) *
                   real_of_int \<lceil>rnd (rnd (real_of_int (submittedAt s)
                                          - real_of_int (dueDate a)) / 86400000)\<rceil>)))))
       \<and> (rounding rnd \<and> dueDate a < submittedAt s
            \<and> submittedAt s \<le> dueDate a + 86400000 \<longrightarrow>
            daysLate rnd (submittedAt s) (dueDate a) = 1
            \<and> stored_points (snd (gradeSubmission rnd d u aid sid b now)) aid sid =
                Some (max 0 (rnd (p * rnd (1 - rnd (rnd (latePenalty a / 100)))))))
       \<and> (rounding rnd
            \<and> 1 < penalty rnd (latePenalty a) (daysLate rnd (submittedAt s) (dueDate a)) \<longrightarrow>
            stored_points (snd (gradeSubmission rnd d u aid sid b now)) aid sid = Some 0)"
proof -
  let ?days = "daysLate rnd (submittedAt s) (dueDate a)"
  let ?pen = "penalty rnd (latePenalty a) ?days"
  have sp: "stored_points (snd (gradeSubmission rnd d u aid sid b now)) aid sid =
              Some (finalPoints rnd a s p)"
    using assms(1-5) by (rule grade_success(2))
  have fp: "finalPoints rnd a s p = max 0 (rnd (p * rnd (1 - ?pen)))"
    using assms(6,7) by (simp add: finalPoints_def)
  have p0: "0 \<le> p"
    using assms(1,2) by (rule validate_grade_points)
  have one: "stored_points (snd (gradeSubmission rnd d u aid sid b now)) aid sid =
           Some (max 0 (rnd (p * rnd (1 - rnd (rnd (latePenalty a / 100) *
                   real_of_int \<lceil>rnd (rnd (real_of_int (submittedAt s)
                                          - real_of_int (dueDate a)) / 86400000)\<rceil>)))))"
    by (simp add: sp fp penalty_def daysLate_def)
  have two: "?days = 1
            \<and> stored_points (snd (gradeSubmission rnd d u aid sid b now)) aid sid =
                Some (max 0 (rnd (p * rnd (1 - rnd (rnd (latePenalty a / 100))))))"
    if "rounding rnd \<and> dueDate a < submittedAt s \<and> submittedAt s \<le> dueDate a + 86400000"
  proof -
    from that have "?days = 1"
      by (simp add: daysLate_first_day)
    then show ?thesis
      by (simp add: sp fp penalty_def)
  qed
  have three: "stored_points (snd (gradeSubmission rnd d u aid sid b now)) aid sid = Some 0"
    if "rounding rnd \<and> 1 < ?pen"
  proof -
    from that have r: "rounding rnd" and "1 - ?pen \<le> 0"
      by simp_all
    then have "rnd (1 - ?pen) \<le> 0"
      by (rule rounding_nonpos)
    with p0 have "p * rnd (1 - ?pen) \<le> 0"
      by (rule mult_nonneg_nonpos)
    with r have "rnd (p * rnd (1 - ?pen)) \<le> 0"
      by (rule rounding_nonpos)
    then show ?thesis
      by (simp add: sp fp)
  qed
  from one two three show ?thesis
    by blast
qed

theorem grade_late_penalty_witness:
  "rounding round_binary64
   \<and> stored_points (snd (gradeSubmission round_binary64 (db_of (with_submission 1705017600000))
       owner1 ''a1'' ''n1'' \<lparr>req_points = Some 90, req_feedback = None\<rparr> 1705100000000))
       ''a1'' ''n1''
     = Some 54
   \<and> stored_points (snd (gradeSubmission round_binary64 (db_of (with_submission 1705104000000))
       owner1 ''a1'' ''n1'' \<lparr>req_points = Some 90, req_feedback = None\<rparr> 1705200000000))
       ''a1'' ''n1''
     = Some (5066549580791807 / 2 ^ 47)
   \<and> daysLate round_binary64 (submittedAt (submission_at 1704844801000))
        (dueDate (with_submission 1704844801000)) = 1
   \<and> stored_points (snd (gradeSubmission round_binary64 (db_of (with_submission 1704844801000))
       owner1 ''a1'' ''n1'' \<lparr>req_points = Some 90, req_feedback = None\<rparr> 1705100000000))
       ''a1'' ''n1''
     = Some 72
   \<and> 1 < penalty round_binary64 (latePenalty (with_submission 1705363200000))
             (daysLate round_binary64 (submittedAt (submission_at 1705363200000))
                (dueDate (with_submission 1705363200000)))
   \<and> stored_points (snd (gradeSubmission round_binary64 (db_of (with_submission 1705363200000))
       owner1 ''a1'' ''n1'' \<lparr>req_points = Some 90, req_feedback = None\<rparr> 1705400000000))
       ''a1'' ''n1''
     = Some 0"
proof -
  let ?b = "\<lparr>req_points = Some 90, req_feedback = None\<rparr>"
  note r = rounding_round_binary64
  have v: "validate_grade ?b = None"
    by (rule validate_grade_example) simp_all
  have p: "req_points ?b = Some 90"
    by simp
  have late: "isLate (submission_at 1705017600000)" "isLate (submission_at 1705104000000)"
    "isLate (submission_at 1704844801000)" "isLate (submission_at 1705363200000)"
    by (simp_all add: submission_at_simps)
  have lp: "0 < latePenalty (with_submission t)" "latePenalty (with_submission t) \<le> 100" for t
    by (simp_all add: with_submission_simps)
  have two: "daysLate round_binary64 1705017600000 1704844800000 = 2"
    using daysLate_whole_days [OF r, of 2 1704844800000] by simp
  have three: "daysLate round_binary64 1705104000000 1704844800000 = 3"
    using daysLate_whole_days [OF r, of 3 1704844800000] by simp
  have six: "daysLate round_binary64 1705363200000 1704844800000 = 6"
    using daysLate_whole_days [OF r, of 6 1704844800000] by simp
  have over: "1 < penalty round_binary64 (latePenalty (with_submission 1705363200000))
             (daysLate round_binary64 (submittedAt (submission_at 1705363200000))
                (dueDate (with_submission 1705363200000)))"
    by (simp only: with_submission_simps submission_at_simps six penalty_six_days)
  have first: "dueDate (with_submission 1704844801000)
                 < submittedAt (submission_at 1704844801000)
        \<and> submittedAt (submission_at 1704844801000)
             \<le> dueDate (with_submission 1704844801000) + 86400000"
    by (simp add: with_submission_simps submission_at_simps)
  note g1 = grade_late_penalty [where rnd = round_binary64
      and d = "db_of (with_submission 1705017600000)"
      and aid = "''a1''" and sid = "''n1''" and u = owner1 and b = ?b and now = 1705100000000,
      OF v p db_of_a1 owner1_owns find_submission_at late(1) lp]
  note g2 = grade_late_penalty [where rnd = round_binary64
      and d = "db_of (with_submission 1705104000000)"
      and aid = "''a1''" and sid = "''n1''" and u = owner1 and b = ?b and now = 1705200000000,
      OF v p db_of_a1 owner1_owns find_submission_at late(2) lp]
  note g3 = grade_late_penalty [where rnd = round_binary64
      and d = "db_of (with_submission 1704844801000)"
      and aid = "''a1''" and sid = "''n1''" and u = owner1 and b = ?b and now = 1705100000000,
      OF v p db_of_a1 owner1_owns find_submission_at late(3) lp]
  note g4 = grade_late_penalty [where rnd = round_binary64
      and d = "db_of (with_submission 1705363200000)"
      and aid = "''a1''" and sid = "''n1''" and u = owner1 and b = ?b and now = 1705400000000,
      OF v p db_of_a1 owner1_owns find_submission_at late(4) lp]
  from g1 have "stored_points (snd (gradeSubmission round_binary64
       (db_of (with_submission 1705017600000))
       owner1 ''a1'' ''n1'' ?b 1705100000000)) ''a1'' ''n1''
     = Some (max 0 (round_binary64 (90 * round_binary64 (1 - penalty round_binary64 20
          (daysLate round_binary64 1705017600000 1704844800000)))))"
    by (simp add: penalty_def daysLate_def with_submission_simps submission_at_simps)
  then have 1: "stored_points (snd (gradeSubmission round_binary64
       (db_of (with_submission 1705017600000))
       owner1 ''a1'' ''n1'' ?b 1705100000000)) ''a1'' ''n1'' = Some 54"
    by (simp only: two points_two_days) simp
  from g2 have "stored_points (snd (gradeSubmission round_binary64
       (db_of (with_submission 1705104000000))
       owner1 ''a1'' ''n1'' ?b 1705200000000)) ''a1'' ''n1''
     = Some (max 0 (round_binary64 (90 * round_binary64 (1 - penalty round_binary64 20
          (daysLate round_binary64 1705104000000 1704844800000)))))"
    by (simp add: penalty_def daysLate_def with_submission_simps submission_at_simps)
  then have 2: "stored_points (snd (gradeSubmission round_binary64
       (db_of (with_submission 1705104000000))
       owner1 ''a1'' ''n1'' ?b 1705200000000)) ''a1'' ''n1''
     = Some (5066549580791807 / 2 ^ 47)"
    by (simp only: three points_three_days) simp
  from g3 first r
  have "daysLate round_binary64 (submittedAt (submission_at 1704844801000))
        (dueDate (with_submission 1704844801000)) = 1
     \<and> stored_points (snd (gradeSubmission round_binary64
       (db_of (with_submission 1704844801000))
       owner1 ''a1'' ''n1'' ?b 1705100000000)) ''a1'' ''n1''
       = Some (max 0 (round_binary64 (90 * round_binary64 (1 - round_binary64
           (round_binary64 (latePenalty (with_submission 1704844801000) / 100))))))"
    by blast
  then have 3: "daysLate round_binary64 (submittedAt (submission_at 1704844801000))
        (dueDate (with_submission 1704844801000)) = 1
     \<and> stored_points (snd (gradeSubmission round_binary64
       (db_of (with_submission 1704844801000))
       owner1 ''a1'' ''n1'' ?b 1705100000000)) ''a1'' ''n1'' = Some 72"
    by (simp only: with_submission_simps(4) points_first_day) simp
  from g4 over r
  have 4: "stored_points (snd (gradeSubmission round_binary64
       (db_of (with_submission 1705363200000))
       owner1 ''a1'' ''n1'' ?b 1705400000000)) ''a1'' ''n1'' = Some 0"
    by blast
  from 1 2 3 4 over r show ?thesis
    by blast
qed




text \<open>
  The hypothesis on \<open>isLate\<close> is needed: \<open>isLate\<close> is fixed when the submission is made,
  the days are counted from the due date at grading time. After the owner has moved the
  due date two days past a late submission, 50 entered points are stored as more than
  50, for every rounding.
\<close>

lemma grade_after_due_date_moved:
  assumes "rounding rnd"
  shows "isLate (submission_at 1705017600000)
   \<and> (\<exists>fp. stored_points
        (snd (gradeSubmission rnd
           (snd (updateAssessment immutable_paths (db_of (with_submission 1705017600000))
              owner1 ''a1'' (empty_update\<lparr>upd_dueDate := Some 1705190400000\<rparr>)))
           owner1 ''a1'' ''n1'' \<lparr>req_points = Some 50, req_feedback = None\<rparr> 1705200000000))
        ''a1'' ''n1'' = Some fp \<and> 50 < fp)"
proof -
  let ?b = "\<lparr>req_points = Some 50, req_feedback = None\<rparr>"
  let ?a = "findByIdAndUpdate immutable_paths (with_submission 1705017600000)
              (empty_update\<lparr>upd_dueDate := Some 1705190400000\<rparr>)"
  let ?s = "submission_at 1705017600000"
  have u: "snd (updateAssessment immutable_paths (db_of (with_submission 1705017600000))
              owner1 ''a1'' (empty_update\<lparr>upd_dueDate := Some 1705190400000\<rparr>))
            = (db_of (with_submission 1705017600000))(''a1'' \<mapsto> ?a)"
    by (simp add: updateAssessment_def db_of_a1 with_submission_simps owner1_def Let_def)
  have a: "submissions ?a = [?s]" "instructor ?a = ''u1''"
    "dueDate ?a = 1705190400000" "latePenalty ?a = 20"
    by (simp_all add: findByIdAndUpdate_def set_mutable_def immutable_paths_def
          empty_update_def with_submission_simps)
  have v: "validate_grade ?b = None"
    by (rule validate_grade_example) simp_all
  have d: "daysLate rnd 1705017600000 1705190400000 = - 2"
    using daysLate_whole_days [OF assms, of "- 2" 1705190400000] by simp
  have "rnd (1 / 2 ^ 3) = 1 / 2 ^ 3"
    using assms binary64_div_pow2 [of 1 3] by (simp add: rounding_exact)
  with rounding_mono [OF assms, of "1 / 2 ^ 3" "20 / 100"] have "1 / 8 \<le> rnd (20 / 100)"
    by simp
  then have "rnd (20 / 100) * real_of_int (- 2) \<le> - 1 / 2 ^ 2"
    by simp
  from rounding_mono [OF assms this] have "penalty rnd 20 (- 2) \<le> rnd (- 1 / 2 ^ 2)"
    by (simp only: penalty_def)
  moreover have "rnd (- 1 / 2 ^ 2) = - 1 / 2 ^ 2"
    using assms binary64_div_pow2 [of "- 1" 2] by (simp add: rounding_exact)
  ultimately have "5 / 2 ^ 2 \<le> 1 - penalty rnd 20 (- 2)"
    by simp
  from rounding_mono [OF assms this]
  have "rnd (5 / 2 ^ 2) \<le> rnd (1 - penalty rnd 20 (- 2))" .
  moreover have "rnd (5 / 2 ^ 2) = 5 / 2 ^ 2"
    using assms binary64_div_pow2 [of 5 2] by (simp add: rounding_exact)
  ultimately have "125 / 2 ^ 1 \<le> 50 * rnd (1 - penalty rnd 20 (- 2))"
    by simp
  from rounding_mono [OF assms this]
  have "rnd (125 / 2 ^ 1) \<le> rnd (50 * rnd (1 - penalty rnd 20 (- 2)))" .
  moreover have "rnd (125 / 2 ^ 1) = 125 / 2 ^ 1"
    using assms binary64_div_pow2 [of 125 1] by (simp add: rounding_exact)
  ultimately have "50 < rnd (50 * rnd (1 - penalty rnd 20 (- 2)))"
    by simp
  then have f: "50 < finalPoints rnd ?a ?s 50"
    by (simp add: finalPoints_def a submission_at_simps d)
  have "stored_points (snd (gradeSubmission rnd
          ((db_of (with_submission 1705017600000))(''a1'' \<mapsto> ?a))
          owner1 ''a1'' ''n1'' ?b 1705200000000)) ''a1'' ''n1''
        = Some (finalPoints rnd ?a ?s 50)"
    by (rule grade_success(2) [OF v]) (simp_all add: a submission_at_simps owner1_def)
  with f show ?thesis
    by (simp add: u submission_at_simps)
qed

text \<open>
  Claim C10. Grading accepts every points value from 0 up to the largest safe integer,
  whatever \<open>maxPoints\<close> is, and for a submission that is not late (or an assessment with
  no positive late penalty) stores the value as entered; so the stored points exceed
  \<open>maxPoints\<close> whenever the entered points do.
\<close>

theorem grade_no_upper_bound:
  assumes "req_points b = Some p" and "0 \<le> p" and "p \<le> MAX_SAFE_INTEGER"
    and "req_feedback b \<noteq> Some []"
    and "d aid = Some a" and "instructor a = user_id u \<or> isAdmin u"
    and "find (\<lambda>s. sub_id s = sid) (submissions a) = Some s"
    and "\<not> isLate s \<or> latePenalty a \<le> 0"
  shows "fst (gradeSubmission rnd d u aid sid b now) =
           Inr (s\<lparr>grade := Some \<lparr>points = p, feedback = req_feedback b,
                                 gradedAt = now, gradedBy = user_id u\<rparr>,
                  status := Graded\<rparr>)
       \<and> stored_points (snd (gradeSubmission rnd d u aid sid b now)) aid sid = Some p
       \<and> (maxPoints a < p \<longrightarrow>
            (\<exists>fp. stored_points (snd (gradeSubmission rnd d u aid sid b now)) aid sid = Some fp
                  \<and> maxPoints a < fp))"
proof -
  have v: "validate_grade b = None"
    using assms(1-4)
    by (cases "req_feedback b")
       (auto simp: validate_grade_def joi_number_min0_required_def joi_string_def)
  have f: "finalPoints rnd a s p = p"
    using assms(8) by (auto simp: finalPoints_def)
  from grade_success [where d = d and aid = aid and rnd = rnd, OF v assms(1,5,6,7)] f
  show ?thesis
    by simp
qed

theorem grade_no_upper_bound_witness:
  "maxPoints (with_submission 1704758400000) < 150
   \<and> \<not> isLate (submission_at 1704758400000)
   \<and> stored_points (snd (gradeSubmission round_binary64 (db_of (with_submission 1704758400000)) owner1
        ''a1'' ''n1'' \<lparr>req_points = Some 150, req_feedback = None\<rparr> 1705100000000)) ''a1'' ''n1''
       = Some 150"
proof -
  let ?b = "\<lparr>req_points = Some 150, req_feedback = None\<rparr>"
  have p: "req_points ?b = Some 150" and fb: "req_feedback ?b \<noteq> Some []"
    by simp_all
  have r: "(0::real) \<le> 150" "150 \<le> MAX_SAFE_INTEGER"
    by (simp_all add: MAX_SAFE_INTEGER_def)
  have nl: "\<not> isLate (submission_at 1704758400000)
              \<or> latePenalty (with_submission 1704758400000) \<le> 0"
    by (simp add: submission_at_simps)
  have m: "maxPoints (with_submission 1704758400000) < 150"
    by (simp add: with_submission_simps)
  note g = grade_no_upper_bound [where rnd = round_binary64
      and d = "db_of (with_submission 1704758400000)"
      and aid = "''a1''" and sid = "''n1''" and u = owner1 and b = ?b and now = 1705100000000,
      OF p r fb db_of_a1 owner1_owns find_submission_at nl]
  show ?thesis
    using g m by (simp add: submission_at_simps)
qed

end
